theory Spec2Isabelle
  imports Complex_Main "HOL-Library.Product_Lexorder"
begin

section \<open>Common data\<close>

text \<open>
  Python numbers: the hours, months and days are Python ints and are modelled as \<open>int\<close>;
  temperatures, powers and energies are Python floats and are modelled as \<open>real\<close>
  (comparisons, \<open>min\<close> and \<open>max\<close> are then exactly those of the program; rounding is
  not part of the model).  A \<open>raise\<close> is a value \<open>Inl e\<close> of the result type.
\<close>

datatype error = ValueError | ZeroDivisionError

text \<open>A period of a daily schedule: the dict \<open>{'from': h, 'to': h, 'target_temp': t}\<close>.\<close>

record period =
  p_from :: int
  p_to :: int
  p_target_temp :: real

section \<open>Schedule resolution: \<open>PoolSchedulerDB\<close> (pool\_scheduler\_db.py)\<close>

subsection \<open>Calendar dates\<close>

text \<open>
  A \<open>datetime.date\<close>.  \<open>toordinal\<close> and \<open>weekday\<close> are those of Python's datetime
  module (proleptic Gregorian calendar, Monday is 0).
\<close>

record pdate =
  d_year :: int
  d_month :: int
  d_day :: int

definition is_leap :: "int \<Rightarrow> bool" where
  "is_leap y = (y mod 4 = 0 \<and> (y mod 100 \<noteq> 0 \<or> y mod 400 = 0))"

definition days_before_year :: "int \<Rightarrow> int" where
  "days_before_year y = (y - 1) * 365 + (y - 1) div 4 - (y - 1) div 100 + (y - 1) div 400"

definition days_in_month :: "int \<Rightarrow> int \<Rightarrow> int" where
  "days_in_month y m =
     (if m = 2 then (if is_leap y then 29 else 28)
      else if m = 4 \<or> m = 6 \<or> m = 9 \<or> m = 11 then 30 else 31)"

definition days_before_month :: "int \<Rightarrow> int \<Rightarrow> int" where
  "days_before_month y m = sum_list (map (days_in_month y) [1 ..< nat m])"

definition toordinal :: "pdate \<Rightarrow> int" where
  "toordinal d = days_before_year (d_year d) + days_before_month (d_year d) (d_month d) + d_day d"

definition weekday :: "pdate \<Rightarrow> int" where
  "weekday d = (toordinal d + 6) mod 7"

subsection \<open>The loaded configuration\<close>

text \<open>
  One row of \<open>self.exception_days\<close>.  The columns come from SQL and may be NULL
  (\<open>None\<close>); \<open>day_schedule_name\<close> comes from a LEFT JOIN.
\<close>

record exception_day =
  exc_name :: string
  day_schedule_name :: "string option"
  fixed_month :: "int option"
  fixed_day :: "int option"
  is_moving :: bool
  easter_offset :: "int option"
  exc_priority :: int

text \<open>One row of \<open>self.date_ranges\<close> (a calendar program).\<close>

record date_range =
  dr_name :: string
  dr_priority :: int
  week_schedule_id :: int
  start_month :: int
  start_day :: int
  end_month :: int
  end_day :: int
  is_recurring :: bool

text \<open>
  One entry of \<open>self.week_schedules\<close>: \<open>days\<close> is the dict from \<open>'mon'\<close> ... \<open>'sun'\<close> to
  a schedule name or \<open>None\<close>; \<open>days.get(dow)\<close> is \<open>ws_days w dow\<close>.
\<close>

record week_schedule =
  ws_name :: string
  ws_days :: "string \<Rightarrow> string option"

text \<open>
  The scheduler object after \<open>__init__\<close>.  \<open>schedules\<close> is a dict in insertion order
  (an association list); \<open>date_ranges\<close> and \<open>exception_days\<close> are lists in the order
  the query returned them (\<open>ORDER BY priority DESC\<close>).
\<close>

record scheduler =
  base_week_schedule_id :: "int option"
  schedules :: "(string \<times> period list) list"
  week_schedules :: "int \<Rightarrow> week_schedule option"
  date_ranges :: "date_range list"
  exception_days :: "exception_day list"
  holiday_dates :: "int \<Rightarrow> pdate option"

subsection \<open>Easter\<close>

definition get_easter_date :: "scheduler \<Rightarrow> int \<Rightarrow> pdate" where
  "get_easter_date s yr =
     (case holiday_dates s yr of
        Some e \<Rightarrow> e
      | None \<Rightarrow>
         (let a = yr mod 19;
              b = yr div 100;
              c = yr mod 100;
              d = b div 4;
              e = b mod 4;
              f = (b + 8) div 25;
              g = (b - f + 1) div 3;
              h = (19 * a + b - d - g + 15) mod 30;
              i = c div 4;
              k = c mod 4;
              l = (32 + 2 * e + 2 * i - h - k) mod 7;
              m = (a + 11 * h + 22 * l) div 451
          in \<lparr>d_year = yr,
              d_month = (h + l - 7 * m + 114) div 31,
              d_day = ((h + l - 7 * m + 114) mod 31) + 1\<rparr>))"

subsection \<open>Exception days\<close>

text \<open>
  The body of the loop of \<open>_check_exception_days\<close>: whether the row \<open>exc\<close> returns.
  \<open>date == easter + timedelta(days=offset)\<close> is the equality of the ordinals.
  The \<open>elif\<close> tests the truth of two ints that may be \<open>None\<close>: neither \<open>None\<close> nor 0.
\<close>

definition exception_matches :: "scheduler \<Rightarrow> pdate \<Rightarrow> exception_day \<Rightarrow> bool" where
  "exception_matches s date exc =
     (if is_moving exc \<and> easter_offset exc \<noteq> None then
        toordinal date = toordinal (get_easter_date s (d_year date)) + the (easter_offset exc)
      else
        (case (fixed_month exc, fixed_day exc) of
           (Some fm, Some fd) \<Rightarrow>
              fm \<noteq> 0 \<and> fd \<noteq> 0 \<and> d_month date = fm \<and> d_day date = fd
         | _ \<Rightarrow> False))"

fun check_exceptions :: "scheduler \<Rightarrow> pdate \<Rightarrow> exception_day list \<Rightarrow> exception_day option" where
  "check_exceptions s date [] = None"
| "check_exceptions s date (exc # rest) =
     (if exception_matches s date exc then Some exc else check_exceptions s date rest)"

definition check_exception_days :: "scheduler \<Rightarrow> pdate \<Rightarrow> exception_day option" where
  "check_exception_days s date = check_exceptions s date (exception_days s)"

subsection \<open>Date ranges\<close>

text \<open>
  \<open>_date_in_range\<close>.  The comparisons are Python's comparisons of \<open>(month, day)\<close>
  tuples, which are lexicographic: the order of pairs used here.
\<close>

definition date_in_range :: "pdate \<Rightarrow> date_range \<Rightarrow> bool" where
  "date_in_range date dr =
     (if is_recurring dr then
        (let from_md = (start_month dr, start_day dr);
             to_md = (end_month dr, end_day dr);
             current_md = (d_month date, d_day date)
         in if from_md \<le> to_md then from_md \<le> current_md \<and> current_md \<le> to_md
            else current_md \<ge> from_md \<or> current_md \<le> to_md)
      else False)"

definition weekday_short :: "string list" where
  "weekday_short = [''mon'', ''tue'', ''wed'', ''thu'', ''fri'', ''sat'', ''sun'']"

text \<open>
  The schedule name a week schedule gives for a date, when it is a non-empty string
  (\<open>if schedule_name:\<close>).
\<close>

definition week_schedule_name :: "week_schedule \<Rightarrow> pdate \<Rightarrow> string option" where
  "week_schedule_name w date =
     (let dow = weekday_short ! nat (weekday date)
      in case ws_days w dow of
           Some n \<Rightarrow> (if n \<noteq> [] then Some n else None)
         | None \<Rightarrow> None)"

text \<open>The loop over \<open>self.date_ranges\<close> in \<open>get_schedule_for_date\<close>.\<close>

fun check_date_ranges :: "scheduler \<Rightarrow> pdate \<Rightarrow> date_range list \<Rightarrow> string option" where
  "check_date_ranges s date [] = None"
| "check_date_ranges s date (dr # rest) =
     (if date_in_range date dr then
        (case week_schedules s (week_schedule_id dr) of
           Some w \<Rightarrow>
             (case week_schedule_name w date of
                Some n \<Rightarrow> Some n
              | None \<Rightarrow> check_date_ranges s date rest)
         | None \<Rightarrow> check_date_ranges s date rest)
      else check_date_ranges s date rest)"

subsection \<open>Resolution\<close>

text \<open>
  \<open>get_schedule_for_date\<close>.  An exception row is a non-empty dict, so \<open>if exception:\<close>
  holds whenever a row was found, and its \<open>day_schedule_name\<close> is returned as it is
  (\<open>None\<close> when the join found no schedule).
\<close>

definition base_week_name :: "scheduler \<Rightarrow> pdate \<Rightarrow> string option" where
  "base_week_name s date =
     (case base_week_schedule_id s of
        None \<Rightarrow> None
      | Some b \<Rightarrow>
          (if b \<noteq> 0 then
             (case week_schedules s b of
                Some w \<Rightarrow> week_schedule_name w date
              | None \<Rightarrow> None)
           else None))"

definition get_schedule_for_date :: "scheduler \<Rightarrow> pdate \<Rightarrow> error + string option" where
  "get_schedule_for_date s date =
     (case check_exception_days s date of
        Some exc \<Rightarrow> Inr (day_schedule_name exc)
      | None \<Rightarrow>
         (case check_date_ranges s date (date_ranges s) of
            Some n \<Rightarrow> Inr (Some n)
          | None \<Rightarrow>
             (case base_week_name s date of
                Some n \<Rightarrow> Inr (Some n)
              | None \<Rightarrow>
                 (case schedules s of
                    (n, ps) # rest \<Rightarrow> Inr (Some n)
                  | [] \<Rightarrow> Inl ValueError))))"

text \<open>\<open>get_periods\<close>: the periods of the resolved schedule, \<open>ValueError\<close> when it is unknown.\<close>

definition get_periods :: "scheduler \<Rightarrow> pdate \<Rightarrow> error + period list" where
  "get_periods s date =
     (case get_schedule_for_date s date of
        Inl e \<Rightarrow> Inl e
      | Inr None \<Rightarrow> Inl ValueError
      | Inr (Some n) \<Rightarrow>
          (case map_of (schedules s) n of
             None \<Rightarrow> Inl ValueError
           | Some ps \<Rightarrow> Inr ps))"

subsection \<open>The window test as the specification words it\<close>

text \<open>
  The specification's reading of the comparison of \<open>(month, day)\<close> tuples, written out:
  the month decides, the day breaks a tie.
\<close>

definition md_le :: "int \<times> int \<Rightarrow> int \<times> int \<Rightarrow> bool" where
  "md_le a b = (fst a < fst b \<or> (fst a = fst b \<and> snd a \<le> snd b))"

definition spec_in_window :: "int \<times> int \<Rightarrow> int \<times> int \<Rightarrow> int \<times> int \<Rightarrow> bool" where
  "spec_in_window start end cur =
     (if md_le start end then md_le start cur \<and> md_le cur end
      else md_le start cur \<or> md_le cur end)"

section \<open>The simulator: \<open>PoolEnergySystemV56\<close> (pool\_v3\_6\_0\_3\_simulator.py)\<close>

subsection \<open>Configuration, schedule interface and weather\<close>

text \<open>The fields of the configuration that the controller and the loop read.\<close>

record config =
  target_temp :: real
  min_temp :: real
  max_temp :: real
  volume_m3 :: real
  hp_capacity_kw :: real
  boiler_capacity_kw :: real
  hp_cop_nominal :: real
  control_mode :: string

text \<open>\<open>self.thermal_mass_rate\<close>, in kWh/K, as \<open>__init__\<close> computes it.\<close>

definition thermal_mass_rate :: "config \<Rightarrow> real" where
  "thermal_mass_rate c = volume_m3 c * 1000 * 4186 / 3600000"

text \<open>
  A timestamp of the hourly weather series: the date as a day number and the hour
  (minutes and seconds are zero in an hourly series).
\<close>

record timestamp =
  ts_date :: int
  ts_hour :: int

datatype transition_type = Open_transition | Close_transition

record transition =
  tr_time :: int
  tr_type :: transition_type

text \<open>
  Modelled from the spec: the simulator imports its scheduler from the module
  \<open>pool_scheduler_v3_6_0_3\<close>, which is not among the sources.  The methods that the
  simulator calls are taken as the fields of a record, one function each, with the result
  types of section 4.1 of the specification (\<open>get_next_opening_info\<close> gives the hours until
  the next opening and its period, or nothing).  Every property below holds for every such
  scheduler.
\<close>

record pool_scheduler =
  sch_get_periods :: "int \<Rightarrow> period list"
  sch_get_daily_transitions :: "int \<Rightarrow> transition list"
  sch_get_current_period_info :: "timestamp \<Rightarrow> period list \<Rightarrow> period option"
  sch_get_next_opening_info :: "timestamp \<Rightarrow> period list \<Rightarrow> (nat \<times> period) option"
  sch_get_period_duration :: "period \<Rightarrow> int"

text \<open>
  The simulator object together with the weather frame.  \<open>heat_demand e T i\<close> is
  \<open>calculate_heat_demand(T, weather_df.iloc[i], timestamp of row i)['Q_total']\<close>: the net
  demand in kW of row \<open>i\<close> at water temperature \<open>T\<close> (every call of the controller and of
  the loop passes a row together with its own timestamp).  \<open>n_rows\<close> is \<open>len(weather_df)\<close>.
\<close>

record env =
  cfg :: config
  scheduler_of :: pool_scheduler
  heat_demand :: "real \<Rightarrow> nat \<Rightarrow> real"
  n_rows :: nat
  row_time :: "nat \<Rightarrow> timestamp"

subsection \<open>Convection (Bowen ratio)\<close>

text \<open>The divisor of \<open>calculate_convection\<close> after its guard on small differences.\<close>

definition bowen_delta_P :: "real \<Rightarrow> real \<Rightarrow> real" where
  "bowen_delta_P P_water P_air =
     (let delta_P = P_water - P_air
      in if \<bar>delta_P\<bar> < 1.0 then (if delta_P \<ge> 0 then 1.0 else - 1.0) else delta_P)"

definition bowen_ratio :: "real \<Rightarrow> real \<Rightarrow> real" where
  "bowen_ratio delta_T delta_P = (1005 * 101325) / (0.622 * 2454000) * delta_T / delta_P"

definition calculate_convection :: "real \<Rightarrow> real \<Rightarrow> real \<Rightarrow> real \<Rightarrow> real \<Rightarrow> error + real" where
  "calculate_convection T_water T_air Q_evap P_water P_air =
     (let delta_T = T_water - T_air;
          delta_P = bowen_delta_P P_water P_air
      in if delta_P = 0 then Inl ZeroDivisionError
         else (let Bo = bowen_ratio delta_T delta_P;
                   Q_conv = Bo * Q_evap
               in Inr (max 0 Q_conv)))"

subsection \<open>Plans\<close>

record open_plan =
  hp_rate_day :: real
  boiler_rate_day :: real
  temp_start :: real
  day_demand :: real
  energy_buffer :: real
  op_case :: int

record closed_plan =
  cp_case :: int
  target_night :: real
  day_hp_power :: real
  day_boiler_power :: real
  start_hp_in :: real
  start_boiler_in :: "real option"
  night_hp_power :: real
  night_boiler_power :: real
  hours_to_open :: nat
  forecast_demand :: real
  energy_needed :: real

text \<open>
  The rows a forecast loop visits: \<open>for i in range(n)\<close> from row \<open>start\<close>, leaving the
  loop at the first row beyond the weather frame.
\<close>

definition forecast_rows :: "env \<Rightarrow> nat \<Rightarrow> nat \<Rightarrow> nat list" where
  "forecast_rows e start n =
     map (\<lambda>i. start + i) (takeWhile (\<lambda>i. start + i < n_rows e) [0 ..< n])"

subsection \<open>Planning an open period\<close>

text \<open>
  \<open>plan_period_opening\<close>.  Both branches divide by \<open>period_hours\<close>; a duration of zero
  is the error.
\<close>

definition plan_period_opening :: "env \<Rightarrow> nat \<Rightarrow> real \<Rightarrow> period \<Rightarrow> error + open_plan" where
  "plan_period_opening e current_idx T_water current_period =
     (let period_hours = sch_get_period_duration (scheduler_of e) current_period;
          day_demand_total =
            sum_list (map (heat_demand e T_water) (forecast_rows e current_idx (nat period_hours)));
          temp_excess = max 0 (T_water - target_temp (cfg e));
          energy_buffer = temp_excess * thermal_mass_rate (cfg e);
          hp_capacity = hp_capacity_kw (cfg e);
          hp_available = hp_capacity * real_of_int period_hours;
          total_available = energy_buffer + hp_available
      in if period_hours = 0 then Inl ZeroDivisionError
         else
          (let (hp_rate, boiler_rate) =
                 (if total_available \<ge> day_demand_total
                  then (max 0 (min ((day_demand_total - energy_buffer) / real_of_int period_hours)
                                   hp_capacity), 0)
                  else (hp_capacity,
                        (day_demand_total - total_available) / real_of_int period_hours))
           in Inr \<lparr>hp_rate_day = hp_rate,
                   boiler_rate_day = boiler_rate,
                   temp_start = T_water,
                   day_demand = day_demand_total,
                   energy_buffer = energy_buffer,
                   op_case = (if boiler_rate = 0 then 1 else 2)\<rparr>))"

subsection \<open>Planning a closed period\<close>

text \<open>
  The four cases.  \<open>plan_closed_period\<close> has this block twice, word for word (after its
  first and after its second forecast); it gives the case, the overnight target and the
  day powers of the heat pump and of the boiler.  In case 2 the thermal mass rate is
  positive, so the division is defined.
\<close>

definition classify_demand :: "config \<Rightarrow> real \<Rightarrow> int \<times> real \<times> real \<times> real" where
  "classify_demand c avg_demand =
     (let hp_capacity = hp_capacity_kw c;
          boiler_capacity = boiler_capacity_kw c;
          target = target_temp c
      in if avg_demand \<le> hp_capacity then (1, target, avg_demand, 0)
         else if avg_demand \<le> hp_capacity + thermal_mass_rate c then
           (2, min (target + (avg_demand - hp_capacity) * 10 / thermal_mass_rate c) (max_temp c),
            hp_capacity, 0)
         else if avg_demand \<le> hp_capacity + boiler_capacity then
           (3, max_temp c, hp_capacity, avg_demand - hp_capacity)
         else (4, max_temp c, hp_capacity, boiler_capacity))"

text \<open>\<open>sum(day_demand) / len(day_demand) if day_demand else 0\<close>.\<close>

definition average :: "real list \<Rightarrow> real" where
  "average xs = (if xs \<noteq> [] then sum_list xs / real (length xs) else 0)"

text \<open>
  The hour-by-hour forecast of the second and third pass: the demand of each row at the
  simulated temperature, which then moves by the net heat over the thermal mass rate and
  is held in \<open>[min_temp, max_temp]\<close>.  The result is the list \<open>day_demand\<close>.
\<close>

fun simulate_day :: "env \<Rightarrow> real \<Rightarrow> nat list \<Rightarrow> real \<Rightarrow> error + real list" where
  "simulate_day e Q_supplied [] T_sim_day = Inr []"
| "simulate_day e Q_supplied (row # rows) T_sim_day =
     (let Q_demand = heat_demand e T_sim_day row;
          Q_net = Q_supplied - Q_demand
      in if thermal_mass_rate (cfg e) = 0 then Inl ZeroDivisionError
         else
          (let delta_T = Q_net / thermal_mass_rate (cfg e);
               T_next = max (min_temp (cfg e)) (min (T_sim_day + delta_T) (max_temp (cfg e)))
           in case simulate_day e Q_supplied rows T_next of
                Inl err \<Rightarrow> Inl err
              | Inr ds \<Rightarrow> Inr (Q_demand # ds)))"

text \<open>
  The last part of \<open>plan_closed_period\<close>, from \<open>temp_rise\<close> on, in two blocks.
  First the energy needed until the opening and the hours of heat pump needed,
  \<open>(total_energy_needed, hours_hp_needed)\<close>.  \<open>int(wait_hours)\<close> is the floor of a
  positive number.
\<close>

definition night_energy :: "env \<Rightarrow> nat \<Rightarrow> real \<Rightarrow> nat \<Rightarrow> real \<Rightarrow> real \<times> real" where
  "night_energy e current_idx T_water hours_until T_night =
     (let hp_capacity = hp_capacity_kw (cfg e);
          temp_rise = max 0 (T_night - T_water);
          hours_available = real hours_until;
          T_avg_heating = (T_water + T_night) / 2;
          losses_sum =
            sum_list (map (heat_demand e T_avg_heating)
                          (forecast_rows e current_idx (min hours_until 5)));
          losses_per_hour =
            (if losses_sum > 0 then losses_sum / real (min hours_until 5) else losses_sum);
          energy_for_temp = temp_rise * thermal_mass_rate (cfg e)
      in if temp_rise > 0.1 then
           (let net_heating_power = max 0 (hp_capacity - losses_per_hour);
                hours_hp_needed =
                  (if net_heating_power > 0
                   then min hours_available (energy_for_temp / net_heating_power * 1.2)
                   else hours_available);
                wait_hours = max 0 (hours_available - hours_hp_needed)
            in if wait_hours > 0 then
                 (let wait_losses =
                        sum_list (map (heat_demand e T_water)
                                      (forecast_rows e current_idx (nat \<lfloor>wait_hours\<rfloor>)))
                  in (energy_for_temp + wait_losses + losses_per_hour * hours_hp_needed,
                      hours_hp_needed))
               else (energy_for_temp + losses_per_hour * hours_hp_needed, hours_hp_needed))
         else
           (let total_energy_needed = losses_per_hour * hours_available
            in (total_energy_needed,
                if hp_capacity > 0 then total_energy_needed / hp_capacity
                else hours_available)))"

text \<open>
  Then the start times: \<open>(start_hp_in, start_boiler_in, night_hp_power,
  night_boiler_power, total_energy_needed)\<close>.  The boiler has no start time when the
  heat pump alone covers the energy; else the division by the boiler's capacity is the
  error when that capacity is zero.
\<close>

definition night_heating ::
  "env \<Rightarrow> nat \<Rightarrow> real \<Rightarrow> nat \<Rightarrow> real \<Rightarrow> error + (real \<times> real option \<times> real \<times> real \<times> real)" where
  "night_heating e current_idx T_water hours_until T_night =
     (let hp_capacity = hp_capacity_kw (cfg e);
          boiler_capacity = boiler_capacity_kw (cfg e);
          hours_available = real hours_until;
          (total_energy_needed, hours_hp_needed) =
            night_energy e current_idx T_water hours_until T_night;
          hp_energy_available = hp_capacity * hours_available
      in if total_energy_needed \<le> hp_energy_available then
           Inr (max 0 (hours_available - hours_hp_needed), None, hp_capacity, 0,
                total_energy_needed)
         else if boiler_capacity = 0 then Inl ZeroDivisionError
         else
          (let hp_contribution = hp_capacity * hours_available;
               boiler_energy_needed = total_energy_needed - hp_contribution;
               hours_boiler_needed = boiler_energy_needed / boiler_capacity
           in Inr (0, Some (max 0 (hours_available - hours_boiler_needed)), hp_capacity,
                   boiler_capacity, total_energy_needed)))"

text \<open>
  \<open>plan_closed_period\<close>: no plan (\<open>None\<close>) when the scheduler finds no next opening.
  The night losses that the function sums first are not used afterwards and are left out.
\<close>

definition plan_closed_period ::
  "env \<Rightarrow> nat \<Rightarrow> real \<Rightarrow> timestamp \<Rightarrow> error + closed_plan option" where
  "plan_closed_period e current_idx T_water ts =
     (let c = cfg e;
          periods = sch_get_periods (scheduler_of e) (ts_date ts)
      in case sch_get_next_opening_info (scheduler_of e) ts periods of
           None \<Rightarrow> Inr None
         | Some (hours_until, next_period) \<Rightarrow>
            (let rows = forecast_rows e (current_idx + hours_until) 10;
                 day_demand1 = map (heat_demand e (target_temp c)) rows;
                 (case1, target_night1, day_hp_power1, day_boiler_power1) =
                    classify_demand c (average day_demand1)
             in case simulate_day e (hp_capacity_kw c) rows target_night1 of
                  Inl err \<Rightarrow> Inl err
                | Inr day_demand2 \<Rightarrow>
                   (let avg_demand = average day_demand2;
                        (case2, target_night2, day_hp_power2, day_boiler_power2) =
                           classify_demand c avg_demand
                    in case simulate_day e (day_hp_power2 + day_boiler_power2) rows target_night2 of
                         Inl err \<Rightarrow> Inl err
                       | Inr day_demand_final \<Rightarrow>
                          (let avg_demand_final = average day_demand_final;
                               target_night3 =
                                 (if case2 = 2 \<and> avg_demand_final > hp_capacity_kw c + 5
                                  then min (target_temp c
                                            + (avg_demand_final - hp_capacity_kw c) * 10
                                                / thermal_mass_rate c
                                            + 0.2) (max_temp c)
                                  else target_night2)
                           in case night_heating e current_idx T_water hours_until target_night3 of
                                Inl err \<Rightarrow> Inl err
                              | Inr (start_hp, start_boiler, night_hp, night_boiler, total_energy) \<Rightarrow>
                                 Inr (Some \<lparr>cp_case = case2,
                                            target_night = target_night3,
                                            day_hp_power = day_hp_power2,
                                            day_boiler_power = day_boiler_power2,
                                            start_hp_in = start_hp,
                                            start_boiler_in = start_boiler,
                                            night_hp_power = night_hp,
                                            night_boiler_power = night_boiler,
                                            hours_to_open = hours_until,
                                            forecast_demand = avg_demand,
                                            energy_needed = total_energy\<rparr>)))))"

subsection \<open>Control\<close>

text \<open>
  The planner's state between two hourly calls: \<open>self.open_plan\<close> and
  \<open>self.closed_plan\<close> (\<open>None\<close> until the first plan is made).
\<close>

record ctrl_state =
  open_plan :: "open_plan option"
  closed_plan :: "closed_plan option"

text \<open>
  The mode label of an hour.  The program builds a string from the branch, the plan's
  case and whether the boiler is active; the label keeps these three.
\<close>

datatype mode_label =
    Mode_reactive
  | Mode_no_periods
  | Mode_open_hp int
  | Mode_open_hp_boiler int
  | Mode_closed_no_plan
  | Mode_closed_heat int bool
  | Mode_closed_heat_recalc int bool
  | Mode_closed_maintain int bool
  | Mode_closed_wait int

text \<open>The dict that \<open>execute_control\<close> returns.\<close>

record control_out =
  Q_needed :: real
  Q_hp :: real
  Q_boiler :: real
  Q_delivered :: real
  Q_unmet :: real
  cop :: real
  hp_electric :: real
  mode :: mode_label
  ctl_case :: int
  preheat :: bool

text \<open>
  The thermostat of reactive mode; the branch for a date without periods repeats it word
  for word and differs in the mode label only.
\<close>

definition thermostat :: "config \<Rightarrow> real \<Rightarrow> real \<Rightarrow> real \<Rightarrow> mode_label \<Rightarrow> control_out" where
  "thermostat c T_water Q_demand cop_now label =
     (let temp_error = target_temp c - T_water;
          Q_needed_now =
            (if T_water < target_temp c
             then Q_demand + min (temp_error * thermal_mass_rate c) 200
             else Q_demand);
          Q_hp_now = min Q_needed_now (hp_capacity_kw c);
          Q_boiler_now = min (Q_needed_now - Q_hp_now) (boiler_capacity_kw c)
      in \<lparr>Q_needed = Q_needed_now,
          Q_hp = Q_hp_now,
          Q_boiler = Q_boiler_now,
          Q_delivered = Q_hp_now + Q_boiler_now,
          Q_unmet = max 0 (Q_needed_now - Q_hp_now - Q_boiler_now),
          cop = cop_now,
          hp_electric = (if cop_now > 0 then Q_hp_now / cop_now else 0),
          mode = label,
          ctl_case = 0,
          preheat = False\<rparr>)"

text \<open>
  The loop over the day's transitions: at an open transition of this hour the open plan is
  made anew for the first period that starts now; at a close transition the closed plan is
  made anew (it may be no plan).
\<close>

fun handle_transitions ::
  "env \<Rightarrow> nat \<Rightarrow> real \<Rightarrow> timestamp \<Rightarrow> period list \<Rightarrow> transition list \<Rightarrow> ctrl_state
     \<Rightarrow> error + ctrl_state" where
  "handle_transitions e current_idx T_water ts periods [] st = Inr st"
| "handle_transitions e current_idx T_water ts periods (tr # rest) st =
     (if ts_hour ts = tr_time tr then
        (case tr_type tr of
           Open_transition \<Rightarrow>
             (case find (\<lambda>p. p_from p = ts_hour ts) periods of
                Some p \<Rightarrow>
                  (case plan_period_opening e current_idx T_water p of
                     Inl err \<Rightarrow> Inl err
                   | Inr plan \<Rightarrow>
                       handle_transitions e current_idx T_water ts periods rest
                         (st\<lparr>open_plan := Some plan\<rparr>))
              | None \<Rightarrow> handle_transitions e current_idx T_water ts periods rest st)
         | Close_transition \<Rightarrow>
             (case plan_closed_period e current_idx T_water ts of
                Inl err \<Rightarrow> Inl err
              | Inr plan \<Rightarrow>
                  handle_transitions e current_idx T_water ts periods rest
                    (st\<lparr>closed_plan := plan\<rparr>)))
      else handle_transitions e current_idx T_water ts periods rest st)"

text \<open>
  The hours since the closed plan was made: since the last close of today that is not
  after this hour, else since the last close of yesterday, else since midnight.
  \<open>timestamp.replace(hour=h)\<close> raises \<open>ValueError\<close> unless \<open>h\<close> is in 0..23.
\<close>

definition hours_since_plan_of :: "env \<Rightarrow> timestamp \<Rightarrow> period list \<Rightarrow> error + real" where
  "hours_since_plan_of e ts periods =
     (let hour = ts_hour ts
      in case find (\<lambda>p. p_to p \<le> hour) (rev periods) of
           Some p \<Rightarrow>
             (let last_close_hour = p_to p
              in if 0 \<le> last_close_hour \<and> last_close_hour \<le> 23
                 then Inr (real_of_int (hour - last_close_hour))
                 else Inl ValueError)
         | None \<Rightarrow>
             (let yesterday_periods = sch_get_periods (scheduler_of e) (ts_date ts - 1)
              in if yesterday_periods \<noteq> [] then
                   (let last_close_hour = p_to (last yesterday_periods)
                    in if 0 \<le> last_close_hour \<and> last_close_hour \<le> 23
                       then Inr (real_of_int (hour - last_close_hour) + 24)
                       else Inl ValueError)
                 else Inr (real_of_int hour)))"

text \<open>
  The dispatch of a closed hour under a plan, block by block.  First the activation of
  the heat pump, \<open>(hp_active, power_factor)\<close>: full power once the start time has
  passed, and in the hour that contains the start time the part of the hour after it.
\<close>

definition hp_activation :: "closed_plan \<Rightarrow> real \<Rightarrow> bool \<times> real" where
  "hp_activation plan hours_since_plan =
     (let hp_start_hour = \<lfloor>start_hp_in plan\<rfloor>;
          hp_fractional = start_hp_in plan - real_of_int hp_start_hour
      in if hours_since_plan \<ge> start_hp_in plan then (True, 1.0)
         else if hours_since_plan \<ge> real_of_int hp_start_hour then (True, 1.0 - hp_fractional)
         else (False, 0.0))"

text \<open>
  The activation of the boiler, \<open>(boiler_active, boiler_power_factor)\<close>: never when the
  plan has no start time for it.
\<close>

definition boiler_activation :: "closed_plan \<Rightarrow> real \<Rightarrow> bool \<times> real" where
  "boiler_activation plan hours_since_plan =
     (case start_boiler_in plan of
        Some start_boiler \<Rightarrow>
          (let boiler_start_hour = \<lfloor>start_boiler\<rfloor>;
               boiler_fractional = start_boiler - real_of_int boiler_start_hour
           in if hours_since_plan \<ge> start_boiler then (True, 1.0)
              else if hours_since_plan \<ge> real_of_int boiler_start_hour
              then (True, 1.0 - boiler_fractional)
              else (False, 0.0))
      | None \<Rightarrow> (False, 0.0))"

text \<open>
  The power needed, \<open>(Q_needed, preheat, mode)\<close>: heating towards the overnight target,
  heating again close to it, maintaining, or waiting.
\<close>

definition closed_needed ::
  "config \<Rightarrow> closed_plan \<Rightarrow> bool \<Rightarrow> bool \<Rightarrow> real \<Rightarrow> real \<Rightarrow> real \<Rightarrow> real \<times> bool \<times> mode_label" where
  "closed_needed c plan hp_active boiler_active hours_remaining T_water Q_demand =
     (let temp_error = target_night plan - T_water
      in if hp_active \<and> temp_error > 0.1 \<and> hours_remaining > 0 then
           (let energy = temp_error * thermal_mass_rate c;
                Q_recovery = max 0 (min (energy / hours_remaining) 400)
            in (Q_demand + Q_recovery, True, Mode_closed_heat (cp_case plan) boiler_active))
         else if hp_active \<and> hours_remaining > 0 then
           (if temp_error > 0.05 then
              (let energy_for_temp = temp_error * thermal_mass_rate c;
                   energy_for_losses = Q_demand * hours_remaining;
                   total_energy = energy_for_temp + energy_for_losses
               in (total_energy / hours_remaining, True,
                   Mode_closed_heat_recalc (cp_case plan) boiler_active))
            else (Q_demand, False, Mode_closed_maintain (cp_case plan) boiler_active))
         else (Q_demand, False, Mode_closed_wait (cp_case plan)))"

text \<open>The powers applied, \<open>(Q_hp, Q_boiler)\<close>.\<close>

definition apply_power ::
  "config \<Rightarrow> closed_plan \<Rightarrow> bool \<times> real \<Rightarrow> bool \<times> real \<Rightarrow> real \<Rightarrow> real \<Rightarrow> real \<times> real" where
  "apply_power c plan hp_act boiler_act Q_needed_now Q_demand =
     (if fst hp_act then
        (let Q_hp_now = min Q_needed_now (night_hp_power plan * snd hp_act)
         in (Q_hp_now,
             if fst boiler_act
             then min (Q_needed_now - Q_hp_now) (night_boiler_power plan * snd boiler_act)
             else 0))
      else (min Q_demand (hp_capacity_kw c), 0))"

text \<open>The whole closed dispatch: \<open>(Q_needed, Q_hp, Q_boiler, mode, preheat)\<close>.\<close>

definition closed_dispatch ::
  "config \<Rightarrow> closed_plan \<Rightarrow> real \<Rightarrow> real \<Rightarrow> real \<Rightarrow> real \<times> real \<times> real \<times> mode_label \<times> bool" where
  "closed_dispatch c plan hours_since_plan T_water Q_demand =
     (let hours_remaining = real (hours_to_open plan) - hours_since_plan;
          hp_act = hp_activation plan hours_since_plan;
          boiler_act = boiler_activation plan hours_since_plan;
          (Q_needed_now, preheat_now, label) =
            closed_needed c plan (fst hp_act) (fst boiler_act) hours_remaining T_water Q_demand;
          (Q_hp_now, Q_boiler_now) = apply_power c plan hp_act boiler_act Q_needed_now Q_demand
      in (Q_needed_now, Q_hp_now, Q_boiler_now, label, preheat_now))"

text \<open>The end of \<open>execute_control\<close>: the delivered and the unmet power, and the case.\<close>

definition finish_control ::
  "real \<Rightarrow> real \<Rightarrow> real \<Rightarrow> real \<Rightarrow> mode_label \<Rightarrow> int \<Rightarrow> bool \<Rightarrow> control_out" where
  "finish_control Q_needed_now Q_hp_now Q_boiler_now cop_now label case_now preheat_now =
     (let Q_delivered_now = Q_hp_now + Q_boiler_now
      in \<lparr>Q_needed = Q_needed_now,
          Q_hp = Q_hp_now,
          Q_boiler = Q_boiler_now,
          Q_delivered = Q_delivered_now,
          Q_unmet = max 0 (Q_needed_now - Q_delivered_now),
          cop = cop_now,
          hp_electric = (if cop_now > 0 then Q_hp_now / cop_now else 0),
          mode = label,
          ctl_case = case_now,
          preheat = preheat_now\<rparr>)"

text \<open>
  \<open>execute_control\<close>: the hour's dispatch and the planner's state after the call.
\<close>

definition execute_control ::
  "env \<Rightarrow> ctrl_state \<Rightarrow> nat \<Rightarrow> real \<Rightarrow> timestamp \<Rightarrow> error + (control_out \<times> ctrl_state)" where
  "execute_control e st current_idx T_water ts =
     (let c = cfg e;
          Q_demand = heat_demand e T_water current_idx;
          cop_now = hp_cop_nominal c
      in if control_mode c = ''reactive'' then
           Inr (thermostat c T_water Q_demand cop_now Mode_reactive, st)
         else
          (let periods = sch_get_periods (scheduler_of e) (ts_date ts)
           in if periods = [] then
                Inr (thermostat c T_water Q_demand cop_now Mode_no_periods, st)
              else
               (case handle_transitions e current_idx T_water ts periods
                       (sch_get_daily_transitions (scheduler_of e) (ts_date ts)) st of
                  Inl err \<Rightarrow> Inl err
                | Inr st1 \<Rightarrow>
                   (case sch_get_current_period_info (scheduler_of e) ts periods of
                      Some current_period \<Rightarrow>
                        (case (case open_plan st1 of
                                 None \<Rightarrow> plan_period_opening e current_idx T_water current_period
                               | Some plan \<Rightarrow> Inr plan) of
                           Inl err \<Rightarrow> Inl err
                         | Inr plan \<Rightarrow>
                            (let Q_hp_now = min (hp_rate_day plan) (hp_capacity_kw c);
                                 Q_boiler_now = min (boiler_rate_day plan) (boiler_capacity_kw c);
                                 label = (if Q_boiler_now > 0 then Mode_open_hp_boiler (op_case plan)
                                          else Mode_open_hp (op_case plan))
                             in Inr (finish_control Q_demand Q_hp_now Q_boiler_now cop_now label
                                       (op_case plan) False,
                                     st1\<lparr>open_plan := Some plan\<rparr>)))
                    | None \<Rightarrow>
                        (case (case closed_plan st1 of
                                 None \<Rightarrow> plan_closed_period e current_idx T_water ts
                               | Some plan \<Rightarrow> Inr (Some plan)) of
                           Inl err \<Rightarrow> Inl err
                         | Inr None \<Rightarrow>
                             Inr (finish_control Q_demand (min Q_demand (hp_capacity_kw c)) 0 cop_now
                                    Mode_closed_no_plan 0 False,
                                  st1\<lparr>closed_plan := None\<rparr>)
                         | Inr (Some plan) \<Rightarrow>
                            (case hours_since_plan_of e ts periods of
                               Inl err \<Rightarrow> Inl err
                             | Inr hours_since_plan \<Rightarrow>
                                (let (Q_needed_now, Q_hp_now, Q_boiler_now, label, preheat_now) =
                                       closed_dispatch c plan hours_since_plan T_water Q_demand
                                 in Inr (finish_control Q_needed_now Q_hp_now Q_boiler_now cop_now
                                           label (cp_case plan) preheat_now,
                                         st1\<lparr>closed_plan := Some plan\<rparr>))))))))"

subsection \<open>The simulation loop\<close>

text \<open>The fields of an hourly record that the properties read.\<close>

record hour_result =
  hr_timestamp :: timestamp
  water_temp :: real
  net_demand :: real
  control :: control_out

text \<open>
  The loop of \<open>simulate_year\<close> over the rows of the weather frame, from the water
  temperature and the planner's state of the hour before.  The division by the heat
  capacity of the water is the error when the volume is zero.
\<close>

fun simulate_rows :: "env \<Rightarrow> nat list \<Rightarrow> real \<Rightarrow> ctrl_state \<Rightarrow> error + hour_result list" where
  "simulate_rows e [] T_water st = Inr []"
| "simulate_rows e (idx # rest) T_water st =
     (case execute_control e st idx T_water (row_time e idx) of
        Inl err \<Rightarrow> Inl err
      | Inr (ctl, st_next) \<Rightarrow>
         (let demand_now = heat_demand e T_water idx;
              dt = 3600;
              Q_net = Q_delivered ctl - demand_now
          in if volume_m3 (cfg e) * 1000 * 4186 = 0 then Inl ZeroDivisionError
             else
              (let dT = Q_net * dt * 1000 / (volume_m3 (cfg e) * 1000 * 4186);
                   T_water_new =
                     max (min_temp (cfg e) - 1) (min (max_temp (cfg e)) (T_water + dT))
               in case simulate_rows e rest T_water_new st_next of
                    Inl err \<Rightarrow> Inl err
                  | Inr results \<Rightarrow>
                      Inr (\<lparr>hr_timestamp = row_time e idx,
                            water_temp = T_water_new,
                            net_demand = demand_now,
                            control = ctl\<rparr> # results))))"

definition initial_state :: ctrl_state where
  "initial_state = \<lparr>open_plan = None, closed_plan = None\<rparr>"

definition simulate_year :: "env \<Rightarrow> error + hour_result list" where
  "simulate_year e = simulate_rows e [0 ..< n_rows e] (target_temp (cfg e)) initial_state"

section \<open>Auxiliary definitions for the proofs\<close>

text \<open>
  \<open>get_schedule_for_date\<close> with the list of programs as an argument: the resolution
  of a calendar whose programs are \<open>drs\<close> and whose other tables are those of \<open>s\<close>.
\<close>

definition resolve_with :: "scheduler \<Rightarrow> pdate \<Rightarrow> date_range list \<Rightarrow> error + string option" where
  "resolve_with s date drs =
     (case check_exceptions s date (exception_days s) of
        Some exc \<Rightarrow> Inr (day_schedule_name exc)
      | None \<Rightarrow>
         (case check_date_ranges s date drs of
            Some n \<Rightarrow> Inr (Some n)
          | None \<Rightarrow>
             (case base_week_name s date of
                Some n \<Rightarrow> Inr (Some n)
              | None \<Rightarrow>
                 (case schedules s of
                    (n, ps) # rest \<Rightarrow> Inr (Some n)
                  | [] \<Rightarrow> Inl ValueError))))"

text \<open>
  What every closed plan made by \<open>plan_closed_period\<close> satisfies: at night the heat pump
  is planned at its capacity and the boiler at zero or at its capacity.
\<close>

definition plan_within_capacity :: "config \<Rightarrow> closed_plan \<Rightarrow> bool" where
  "plan_within_capacity c p =
     (night_hp_power p = hp_capacity_kw c \<and>
      (night_boiler_power p = 0 \<or> night_boiler_power p = boiler_capacity_kw c))"

definition state_ok :: "config \<Rightarrow> ctrl_state \<Rightarrow> bool" where
  "state_ok c st = (case closed_plan st of None \<Rightarrow> True | Some p \<Rightarrow> plan_within_capacity c p)"

text \<open>A closed plan without the boiler.\<close>

definition hp_only :: "closed_plan \<Rightarrow> bool" where
  "hp_only p = (start_boiler_in p = None \<and> night_boiler_power p = 0)"

text \<open>The clamp of the loop and the temperature change of one hour.\<close>

definition clamp_temp :: "config \<Rightarrow> real \<Rightarrow> real" where
  "clamp_temp c T = max (min_temp c - 1) (min (max_temp c) T)"

definition delta_T_hour :: "config \<Rightarrow> real \<Rightarrow> real \<Rightarrow> real" where
  "delta_T_hour c Q_deliv Q_dem = (Q_deliv - Q_dem) * 3600 * 1000 / (volume_m3 c * 1000 * 4186)"

section \<open>Example data\<close>

subsection \<open>A calendar with a Christmas program and a closed Christmas Day\<close>

definition ex_week :: week_schedule where
  "ex_week =
     \<lparr>ws_name = ''Normal week'',
      ws_days = [''mon'' \<mapsto> ''Normal'', ''tue'' \<mapsto> ''Normal'', ''wed'' \<mapsto> ''Normal'',
                 ''thu'' \<mapsto> ''Normal'', ''fri'' \<mapsto> ''Normal'', ''sat'' \<mapsto> ''Weekend'',
                 ''sun'' \<mapsto> ''Weekend'']\<rparr>"

definition ex_program :: date_range where
  "ex_program =
     \<lparr>dr_name = ''Christmas holidays'', dr_priority = 60, week_schedule_id = 1,
      start_month = 12, start_day = 20, end_month = 1, end_day = 5, is_recurring = True\<rparr>"

definition ex_once :: date_range where
  "ex_once =
     \<lparr>dr_name = ''Opening week'', dr_priority = 80, week_schedule_id = 1,
      start_month = 12, start_day = 1, end_month = 12, end_day = 31, is_recurring = False\<rparr>"

definition ex_christmas :: exception_day where
  "ex_christmas =
     \<lparr>exc_name = ''Christmas Day'', day_schedule_name = Some ''Closed'',
      fixed_month = Some 12, fixed_day = Some 25, is_moving = False, easter_offset = None,
      exc_priority = 100\<rparr>"

definition ex_scheduler :: scheduler where
  "ex_scheduler =
     \<lparr>base_week_schedule_id = None,
      schedules =
        [(''Closed'', []),
         (''Normal'', [\<lparr>p_from = 10, p_to = 20, p_target_temp = 28\<rparr>]),
         (''Weekend'', [\<lparr>p_from = 10, p_to = 18, p_target_temp = 28\<rparr>])],
      week_schedules = [1 \<mapsto> ex_week],
      date_ranges = [ex_program],
      exception_days = [ex_christmas],
      holiday_dates = Map.empty\<rparr>"

definition dec24 :: pdate where
  "dec24 = \<lparr>d_year = 2024, d_month = 12, d_day = 24\<rparr>"

definition dec25 :: pdate where
  "dec25 = \<lparr>d_year = 2024, d_month = 12, d_day = 25\<rparr>"

subsection \<open>The daily schedule 10:00--20:00 and the pool of the scenarios\<close>

definition daily_period :: period where
  "daily_period = \<lparr>p_from = 10, p_to = 20, p_target_temp = 28\<rparr>"

text \<open>
  The simple schedule mode: one period every day.  The period of an hour is the first
  one that contains it (\<open>from \<le> h < to\<close>, or around midnight \<open>h \<ge> from\<close> or
  \<open>h < to\<close>); the next opening is the next 10:00.
\<close>

definition daily_scheduler :: pool_scheduler where
  "daily_scheduler =
     \<lparr>sch_get_periods = (\<lambda>d. [daily_period]),
      sch_get_daily_transitions =
        (\<lambda>d. [\<lparr>tr_time = 10, tr_type = Open_transition\<rparr>,
              \<lparr>tr_time = 20, tr_type = Close_transition\<rparr>]),
      sch_get_current_period_info =
        (\<lambda>ts ps. find (\<lambda>p. if p_from p < p_to p
                             then p_from p \<le> ts_hour ts \<and> ts_hour ts < p_to p
                             else ts_hour ts \<ge> p_from p \<or> ts_hour ts < p_to p) ps),
      sch_get_next_opening_info =
        (\<lambda>ts ps. Some (nat (if ts_hour ts < 10 then 10 - ts_hour ts else 34 - ts_hour ts),
                        daily_period)),
      sch_get_period_duration =
        (\<lambda>p. if p_from p < p_to p then p_to p - p_from p else 24 - p_from p + p_to p)\<rparr>"

definition scenario_config :: config where
  "scenario_config =
     \<lparr>target_temp = 28, min_temp = 26, max_temp = 29, volume_m3 = 625,
      hp_capacity_kw = 100, boiler_capacity_kw = 200, hp_cop_nominal = 4.6,
      control_mode = ''predictive''\<rparr>"

text \<open>Row \<open>i\<close> of the weather frame is hour \<open>i mod 24\<close> of day \<open>i div 24\<close>.\<close>

definition hourly :: "nat \<Rightarrow> timestamp" where
  "hourly i = \<lparr>ts_date = 739000 + int (i div 24), ts_hour = int (i mod 24)\<rparr>"

text \<open>Constant weather: the same demand every hour, whatever the water temperature.\<close>

definition scenario_env :: "real \<Rightarrow> nat \<Rightarrow> env" where
  "scenario_env q n =
     \<lparr>cfg = scenario_config, scheduler_of = daily_scheduler,
      heat_demand = (\<lambda>T i. q), n_rows = n, row_time = hourly\<rparr>"

text \<open>A small pool, whose thermal mass rate is below 150 kWh/K.\<close>

definition small_pool_env :: env where
  "small_pool_env =
     \<lparr>cfg = scenario_config\<lparr>volume_m3 := 100\<rparr>, scheduler_of = daily_scheduler,
      heat_demand = (\<lambda>T i. 250), n_rows = 48, row_time = hourly\<rparr>"

text \<open>The same pool under the thermostat of reactive mode, on a sunny hour.\<close>

definition reactive_env :: env where
  "reactive_env =
     \<lparr>cfg = scenario_config\<lparr>control_mode := ''reactive''\<rparr>, scheduler_of = daily_scheduler,
      heat_demand = (\<lambda>T i. - 5), n_rows = 24, row_time = hourly\<rparr>"

text \<open>The small pool on a day whose demand exceeds both heat sources together.\<close>

definition overload_env :: env where
  "overload_env =
     \<lparr>cfg = scenario_config\<lparr>volume_m3 := 100\<rparr>, scheduler_of = daily_scheduler,
      heat_demand = (\<lambda>T i. 350), n_rows = 48, row_time = hourly\<rparr>"

text \<open>The first two hours of the same day, as a weather frame of its own.\<close>

definition two_hour_env :: env where
  "two_hour_env = overload_env\<lparr>n_rows := 2\<rparr>"

definition two_hour_state :: ctrl_state where
  "two_hour_state =
     \<lparr>open_plan = None,
      closed_plan =
        Some \<lparr>cp_case = 1, target_night = 28, day_hp_power = 0, day_boiler_power = 0,
              start_hp_in = 0, start_boiler_in = Some 8, night_hp_power = 100,
              night_boiler_power = 200, hours_to_open = 10, forecast_demand = 0,
              energy_needed = 1400\<rparr>\<rparr>"

definition two_hour_ctl0 :: control_out where
  "two_hour_ctl0 =
     \<lparr>Q_needed = 350, Q_hp = 100, Q_boiler = 0, Q_delivered = 100, Q_unmet = 250,
      cop = 23 / 5, hp_electric = 500 / 23, mode = Mode_closed_maintain 1 False,
      ctl_case = 1, preheat = False\<rparr>"

definition two_hour_ctl1 :: control_out where
  "two_hour_ctl1 =
     \<lparr>Q_needed = 400, Q_hp = 100, Q_boiler = 0, Q_delivered = 100, Q_unmet = 300,
      cop = 23 / 5, hp_electric = 500 / 23, mode = Mode_closed_heat 1 False,
      ctl_case = 1, preheat = True\<rparr>"

definition two_hour_results :: "hour_result list" where
  "two_hour_results =
     [\<lparr>hr_timestamp = hourly 0, water_temp = 54104 / 2093, net_demand = 350,
       control = two_hour_ctl0\<rparr>,
      \<lparr>hr_timestamp = hourly 1, water_temp = 25, net_demand = 350,
       control = two_hour_ctl1\<rparr>]"

section \<open>Properties of the schedule resolution\<close>

lemma md_le_iff: "md_le a b = (a \<le> b)"
  by (cases a, cases b) (auto simp: md_le_def)

text \<open>
  C4.  For a recurring program the range test is the window test of the specification:
  a same-year window when start \<open>\<le>\<close> end (start \<open>\<le>\<close> current \<open>\<le>\<close> end), a window that
  wraps the year boundary otherwise (current \<open>\<ge>\<close> start or current \<open>\<le>\<close> end), on
  \<open>(month, day)\<close> pairs.  The program from 20 December to 5 January matches 25 December
  and 2 January of every year and does not match 10 January.
\<close>

theorem date_in_range_recurring:
  "is_recurring dr \<longrightarrow>
     date_in_range date dr =
       spec_in_window (start_month dr, start_day dr) (end_month dr, end_day dr)
         (d_month date, d_day date) \<and>
     ((start_month dr, start_day dr) = (12, 20) \<and> (end_month dr, end_day dr) = (1, 5) \<longrightarrow>
        date_in_range \<lparr>d_year = y, d_month = 12, d_day = 25\<rparr> dr \<and>
        date_in_range \<lparr>d_year = y, d_month = 1, d_day = 2\<rparr> dr \<and>
        \<not> date_in_range \<lparr>d_year = y, d_month = 1, d_day = 10\<rparr> dr)"
  by (auto simp: date_in_range_def spec_in_window_def md_le_iff Let_def)

theorem date_in_range_recurring_witness:
  "is_recurring ex_program \<and>
   (start_month ex_program, start_day ex_program) = (12, 20) \<and>
   (end_month ex_program, end_day ex_program) = (1, 5) \<and>
   date_in_range dec25 ex_program =
     spec_in_window (12, 20) (1, 5) (12, 25) \<and>
   date_in_range \<lparr>d_year = 2024, d_month = 12, d_day = 25\<rparr> ex_program \<and>
   date_in_range \<lparr>d_year = 2025, d_month = 1, d_day = 2\<rparr> ex_program \<and>
   \<not> date_in_range \<lparr>d_year = 2025, d_month = 1, d_day = 10\<rparr> ex_program"
  using date_in_range_recurring [of ex_program dec25 2024]
        date_in_range_recurring [of ex_program dec25 2025]
  by (simp add: ex_program_def dec25_def spec_in_window_def md_le_def)

text \<open>The loops read the scheduler's tables only; the list they walk is their argument.\<close>

lemma check_date_ranges_cong:
  "week_schedules s = week_schedules s' \<Longrightarrow>
   check_date_ranges s date drs = check_date_ranges s' date drs"
  by (induction drs) (auto split: option.splits)

lemma check_date_ranges_skip:
  "\<not> date_in_range date dr \<Longrightarrow>
   check_date_ranges s date (pre @ dr # post) = check_date_ranges s date (pre @ post)"
  by (induction pre) (auto split: option.splits)

lemma check_date_ranges_first:
  "\<forall>r \<in> set pre. \<not> date_in_range date r \<Longrightarrow> date_in_range date dr \<Longrightarrow>
   week_schedules s (week_schedule_id dr) = Some w \<Longrightarrow> week_schedule_name w date = Some n \<Longrightarrow>
   check_date_ranges s date (pre @ dr # post) = Some n"
  by (induction pre) auto

lemma check_exceptions_first:
  "\<forall>x \<in> set pre. \<not> exception_matches s date x \<Longrightarrow> exception_matches s date exc \<Longrightarrow>
   check_exceptions s date (pre @ exc # post) = Some exc"
  by (induction pre) auto

lemma check_exceptions_none:
  "\<forall>x \<in> set xs. \<not> exception_matches s date x \<Longrightarrow> check_exceptions s date xs = None"
  by (induction xs) auto

lemma check_exceptions_split:
  "x \<in> set xs \<Longrightarrow> exception_matches s date x \<Longrightarrow>
   \<exists>pre exc post. xs = pre @ exc # post \<and> (\<forall>y \<in> set pre. \<not> exception_matches s date y) \<and>
     exception_matches s date exc"
proof (induction xs)
  case Nil
  then show ?case by simp
next
  case (Cons a xs)
  show ?case
  proof (cases "exception_matches s date a")
    case True
    then have "a # xs = [] @ a # xs \<and> (\<forall>y \<in> set []. \<not> exception_matches s date y) \<and>
      exception_matches s date a" by simp
    then show ?thesis by blast
  next
    case False
    with Cons.prems have "x \<in> set xs" by auto
    with Cons.IH Cons.prems obtain pre exc post where
      h: "xs = pre @ exc # post" "\<forall>y \<in> set pre. \<not> exception_matches s date y"
         "exception_matches s date exc" by blast
    with False have "a # xs = (a # pre) @ exc # post \<and>
      (\<forall>y \<in> set (a # pre). \<not> exception_matches s date y) \<and> exception_matches s date exc"
      by simp
    then show ?thesis by blast
  qed
qed

lemma check_exceptions_date_ranges:
  "check_exceptions (s\<lparr>date_ranges := X\<rparr>) date xs = check_exceptions s date xs"
  by (induction xs) (auto simp: exception_matches_def get_easter_date_def)

lemma base_week_name_date_ranges:
  "base_week_name (s\<lparr>date_ranges := X\<rparr>) date = base_week_name s date"
  by (simp add: base_week_name_def split: option.splits)

lemma check_date_ranges_date_ranges:
  "check_date_ranges (s\<lparr>date_ranges := X\<rparr>) date drs = check_date_ranges s date drs"
  by (rule check_date_ranges_cong) simp

lemma get_schedule_for_date_ranges:
  "get_schedule_for_date (s\<lparr>date_ranges := X\<rparr>) date = resolve_with s date X"
  unfolding get_schedule_for_date_def resolve_with_def check_exception_days_def
  by (simp add: check_exceptions_date_ranges base_week_name_date_ranges
      check_date_ranges_date_ranges split: option.splits list.splits)

text \<open>
  C10.  A program that is not recurring matches no date, and the resolution of every
  date is the one of the calendar without that program.
\<close>

theorem non_recurring_never_matches:
  "\<not> is_recurring dr \<longrightarrow>
     \<not> date_in_range date dr \<and>
     get_schedule_for_date (s\<lparr>date_ranges := pre @ dr # post\<rparr>) date =
       get_schedule_for_date (s\<lparr>date_ranges := pre @ post\<rparr>) date"
proof
  assume nr: "\<not> is_recurring dr"
  then have out: "\<not> date_in_range date dr"
    by (simp add: date_in_range_def)
  have "get_schedule_for_date (s\<lparr>date_ranges := pre @ dr # post\<rparr>) date =
        resolve_with s date (pre @ dr # post)"
    by (rule get_schedule_for_date_ranges)
  also have "\<dots> = resolve_with s date (pre @ post)"
    using out by (simp add: resolve_with_def check_date_ranges_skip split: option.splits)
  also have "\<dots> = get_schedule_for_date (s\<lparr>date_ranges := pre @ post\<rparr>) date"
    by (rule get_schedule_for_date_ranges [symmetric])
  finally show "\<not> date_in_range date dr \<and>
     get_schedule_for_date (s\<lparr>date_ranges := pre @ dr # post\<rparr>) date =
       get_schedule_for_date (s\<lparr>date_ranges := pre @ post\<rparr>) date"
    using out by simp
qed

lemma weekday_dec24: "weekday dec24 = 1"
  by (simp add: dec24_def weekday_def toordinal_def days_before_year_def
      days_before_month_def days_in_month_def is_leap_def upt_rec)

lemma ex_week_tuesday: "week_schedule_name ex_week dec24 = Some ''Normal''"
  by (simp add: week_schedule_name_def weekday_dec24 weekday_short_def ex_week_def)

theorem non_recurring_never_matches_witness:
  "\<not> is_recurring ex_once \<and>
   \<not> date_in_range dec24 ex_once \<and>
   get_schedule_for_date (ex_scheduler\<lparr>date_ranges := [] @ ex_once # [ex_program]\<rparr>) dec24 =
     get_schedule_for_date (ex_scheduler\<lparr>date_ranges := [] @ [ex_program]\<rparr>) dec24 \<and>
   get_schedule_for_date (ex_scheduler\<lparr>date_ranges := [] @ [ex_program]\<rparr>) dec24 =
     Inr (Some ''Normal'')"
proof -
  have nr: "\<not> is_recurring ex_once" by (simp add: ex_once_def)
  have res: "get_schedule_for_date (ex_scheduler\<lparr>date_ranges := [] @ [ex_program]\<rparr>) dec24 =
     Inr (Some ''Normal'')"
    using ex_week_tuesday
    by (simp add: get_schedule_for_date_def check_exception_days_def ex_scheduler_def
        ex_christmas_def exception_matches_def ex_program_def date_in_range_def dec24_def)
  show ?thesis
    using nr res non_recurring_never_matches [where dr = ex_once and date = dec24 and s = ex_scheduler
        and pre = "[]" and post = "[ex_program]"]
    by simp
qed

text \<open>
  C3.  When some exception day matches a date, the resolution returns the schedule name
  of the first matching row of the exception list, whatever the programs say (the list
  is loaded by descending priority, and then no matching row has a higher priority).
  When no exception matches, the first program that contains the date and whose week
  pattern names a schedule for the weekday supplies that name.
\<close>

theorem exception_day_wins:
  "(x \<in> set (exception_days s) \<and> exception_matches s date x \<longrightarrow>
      (\<exists>pre exc post.
          exception_days s = pre @ exc # post \<and>
          (\<forall>y \<in> set pre. \<not> exception_matches s date y) \<and>
          exception_matches s date exc \<and>
          check_exception_days s date = Some exc \<and>
          get_schedule_for_date s date = Inr (day_schedule_name exc) \<and>
          (sorted_wrt (\<lambda>a b. exc_priority a \<ge> exc_priority b) (exception_days s) \<longrightarrow>
             (\<forall>y \<in> set (exception_days s).
                 exception_matches s date y \<longrightarrow> exc_priority y \<le> exc_priority exc)))) \<and>
   ((\<forall>y \<in> set (exception_days s). \<not> exception_matches s date y) \<and>
    date_ranges s = dpre @ dr # dpost \<and>
    (\<forall>r \<in> set dpre. \<not> date_in_range date r) \<and>
    date_in_range date dr \<and>
    week_schedules s (week_schedule_id dr) = Some w \<and>
    week_schedule_name w date = Some n \<longrightarrow>
      get_schedule_for_date s date = Inr (Some n))"
proof (intro conjI impI)
  assume "x \<in> set (exception_days s) \<and> exception_matches s date x"
  then obtain pre exc post where
    sp: "exception_days s = pre @ exc # post" and
    np: "\<forall>y \<in> set pre. \<not> exception_matches s date y" and
    m: "exception_matches s date exc"
    using check_exceptions_split [of x "exception_days s" s date] by blast
  have c: "check_exception_days s date = Some exc"
    using check_exceptions_first [OF np m] sp by (simp add: check_exception_days_def)
  have g: "get_schedule_for_date s date = Inr (day_schedule_name exc)"
    using c by (simp add: get_schedule_for_date_def)
  have p: "sorted_wrt (\<lambda>a b. exc_priority a \<ge> exc_priority b) (exception_days s) \<longrightarrow>
             (\<forall>y \<in> set (exception_days s).
                 exception_matches s date y \<longrightarrow> exc_priority y \<le> exc_priority exc)"
    using sp np by (auto simp: sorted_wrt_append)
  show "\<exists>pre exc post.
          exception_days s = pre @ exc # post \<and>
          (\<forall>y \<in> set pre. \<not> exception_matches s date y) \<and>
          exception_matches s date exc \<and>
          check_exception_days s date = Some exc \<and>
          get_schedule_for_date s date = Inr (day_schedule_name exc) \<and>
          (sorted_wrt (\<lambda>a b. exc_priority a \<ge> exc_priority b) (exception_days s) \<longrightarrow>
             (\<forall>y \<in> set (exception_days s).
                 exception_matches s date y \<longrightarrow> exc_priority y \<le> exc_priority exc))"
    using sp np m c g p by blast
next
  assume h: "(\<forall>y \<in> set (exception_days s). \<not> exception_matches s date y) \<and>
    date_ranges s = dpre @ dr # dpost \<and>
    (\<forall>r \<in> set dpre. \<not> date_in_range date r) \<and>
    date_in_range date dr \<and>
    week_schedules s (week_schedule_id dr) = Some w \<and>
    week_schedule_name w date = Some n"
  then have "check_exception_days s date = None"
    by (simp add: check_exception_days_def check_exceptions_none)
  moreover have "check_date_ranges s date (date_ranges s) = Some n"
    using h check_date_ranges_first [of dpre date dr s w n dpost] by simp
  ultimately show "get_schedule_for_date s date = Inr (Some n)"
    by (simp add: get_schedule_for_date_def)
qed

theorem exception_day_wins_witness:
  "ex_christmas \<in> set (exception_days ex_scheduler) \<and>
   exception_matches ex_scheduler dec25 ex_christmas \<and>
   date_in_range dec25 ex_program \<and>
   get_schedule_for_date ex_scheduler dec25 = Inr (Some ''Closed'') \<and>
   \<not> exception_matches ex_scheduler dec24 ex_christmas \<and>
   date_ranges ex_scheduler = [] @ ex_program # [] \<and>
   date_in_range dec24 ex_program \<and>
   week_schedules ex_scheduler (week_schedule_id ex_program) = Some ex_week \<and>
   week_schedule_name ex_week dec24 = Some ''Normal'' \<and>
   get_schedule_for_date ex_scheduler dec24 = Inr (Some ''Normal'')"
proof -
  have a: "ex_christmas \<in> set (exception_days ex_scheduler) \<and>
           exception_matches ex_scheduler dec25 ex_christmas"
    by (simp add: ex_scheduler_def ex_christmas_def exception_matches_def dec25_def)
  have r25: "date_in_range dec25 ex_program"
    by (simp add: ex_program_def date_in_range_def dec25_def)
  have b: "(\<forall>y \<in> set (exception_days ex_scheduler). \<not> exception_matches ex_scheduler dec24 y) \<and>
    date_ranges ex_scheduler = [] @ ex_program # [] \<and>
    (\<forall>r \<in> set []. \<not> date_in_range dec24 r) \<and>
    date_in_range dec24 ex_program \<and>
    week_schedules ex_scheduler (week_schedule_id ex_program) = Some ex_week \<and>
    week_schedule_name ex_week dec24 = Some ''Normal''"
    using ex_week_tuesday
    by (simp add: ex_scheduler_def ex_christmas_def exception_matches_def dec24_def
        ex_program_def date_in_range_def)
  have one: "exception_days ex_scheduler = [ex_christmas]"
    by (simp add: ex_scheduler_def)
  from exception_day_wins [where x = ex_christmas and s = ex_scheduler and date = dec25] a
  obtain pre exc post where
    sp: "exception_days ex_scheduler = pre @ exc # post" and
    g: "get_schedule_for_date ex_scheduler dec25 = Inr (day_schedule_name exc)"
    by blast
  from sp one have "exc = ex_christmas"
    by (cases pre) auto
  with g have c25: "get_schedule_for_date ex_scheduler dec25 = Inr (Some ''Closed'')"
    by (simp add: ex_christmas_def)
  have c24: "get_schedule_for_date ex_scheduler dec24 = Inr (Some ''Normal'')"
    using exception_day_wins [where x = ex_christmas and s = ex_scheduler and date = dec24
        and dpre = "[]" and dr = ex_program and dpost = "[]" and w = ex_week
        and n = "''Normal''"] b by blast
  have n24: "\<not> exception_matches ex_scheduler dec24 ex_christmas"
    using b one by simp
  show ?thesis using a r25 b c25 c24 n24 by simp
qed

section \<open>Properties of the thermal model and of the controller\<close>

text \<open>
  C7.  In the convection computation the divisor has magnitude at least 1: a difference
  of the vapour pressures below 1 Pa in magnitude is replaced by 1 when it is not
  negative and by -1 otherwise, and a larger difference is kept.  The division
  never fails, and the loss returned is \<open>max(0, Bo * Q_evap)\<close>.
\<close>

theorem convection_divisor_clamped:
  "1 \<le> \<bar>bowen_delta_P P_water P_air\<bar> \<and>
   (\<bar>P_water - P_air\<bar> < 1 \<longrightarrow>
      bowen_delta_P P_water P_air = (if P_water - P_air \<ge> 0 then 1 else - 1)) \<and>
   (1 \<le> \<bar>P_water - P_air\<bar> \<longrightarrow> bowen_delta_P P_water P_air = P_water - P_air) \<and>
   calculate_convection T_water T_air Q_evap P_water P_air =
     Inr (max 0 ((1005 * 101325) / (0.622 * 2454000) * (T_water - T_air)
                   / bowen_delta_P P_water P_air * Q_evap))"
proof -
  have d: "1 \<le> \<bar>bowen_delta_P P_water P_air\<bar>"
    by (simp add: bowen_delta_P_def Let_def)
  then have nz: "bowen_delta_P P_water P_air \<noteq> 0"
    by auto
  have a: "\<bar>P_water - P_air\<bar> < 1 \<longrightarrow>
      bowen_delta_P P_water P_air = (if P_water - P_air \<ge> 0 then 1 else - 1)"
    by (simp add: bowen_delta_P_def Let_def)
  have b: "1 \<le> \<bar>P_water - P_air\<bar> \<longrightarrow> bowen_delta_P P_water P_air = P_water - P_air"
    by (simp add: bowen_delta_P_def Let_def)
  have c: "calculate_convection T_water T_air Q_evap P_water P_air =
     Inr (max 0 ((1005 * 101325) / (0.622 * 2454000) * (T_water - T_air)
                   / bowen_delta_P P_water P_air * Q_evap))"
    using nz by (simp add: calculate_convection_def bowen_ratio_def Let_def)
  show ?thesis using d a b c by blast
qed

theorem convection_divisor_clamped_witness:
  "\<bar>(1000.4::real) - 1000\<bar> < 1 \<and> bowen_delta_P 1000.4 1000 = 1 \<and>
   \<bar>(1000::real) - 1000.5\<bar> < 1 \<and> bowen_delta_P 1000 1000.5 = - 1 \<and>
   1 \<le> \<bar>(3000::real) - 600\<bar> \<and> bowen_delta_P 3000 600 = 2400 \<and>
   calculate_convection 28 5 50 1000 1000.5 = Inr 0 \<and>
   calculate_convection 28 5 50 3000 600 =
     Inr (max 0 ((1005 * 101325) / (0.622 * 2454000) * (28 - 5) / 2400 * 50))"
  using convection_divisor_clamped [where P_water = "1000.4" and P_air = 1000
          and T_water = 28 and T_air = 5 and Q_evap = 50]
        convection_divisor_clamped [where P_water = 1000 and P_air = "1000.5"
          and T_water = 28 and T_air = 5 and Q_evap = 50]
        convection_divisor_clamped [where P_water = 3000 and P_air = 600
          and T_water = 28 and T_air = 5 and Q_evap = 50]
  by simp

text \<open>
  C9.  The thermostat has no lower clamp at zero.  In reactive mode and on a date without
  periods, with the water at or above the target and a negative net demand, the power
  needed is the demand, the heat pump's power is \<open>min(Q_needed, hp_capacity)\<close>, which is
  \<open>Q_needed\<close> when the capacity is not negative, and both the heat pump's power and the
  delivered power are negative.
\<close>

theorem negative_demand_negative_dispatch:
  "(control_mode (cfg e) = ''reactive'' \<or> sch_get_periods (scheduler_of e) (ts_date ts) = []) \<and>
   target_temp (cfg e) \<le> T_water \<and> heat_demand e T_water idx < 0 \<longrightarrow>
     (\<exists>out. execute_control e st idx T_water ts = Inr (out, st) \<and>
        Q_needed out = heat_demand e T_water idx \<and>
        Q_hp out = min (Q_needed out) (hp_capacity_kw (cfg e)) \<and>
        (0 \<le> hp_capacity_kw (cfg e) \<longrightarrow> Q_hp out = Q_needed out) \<and>
        Q_delivered out = Q_hp out + Q_boiler out \<and>
        Q_hp out < 0 \<and> Q_delivered out < 0)"
  by (auto simp: execute_control_def thermostat_def Let_def min_def)

theorem negative_demand_negative_dispatch_witness:
  "control_mode (cfg reactive_env) = ''reactive'' \<and>
   target_temp (cfg reactive_env) \<le> 28.5 \<and> heat_demand reactive_env 28.5 12 < 0 \<and>
   0 \<le> hp_capacity_kw (cfg reactive_env) \<and>
   (\<exists>out. execute_control reactive_env initial_state 12 28.5 (hourly 12) = Inr (out, initial_state) \<and>
      Q_hp out = - 5 \<and> Q_needed out = - 5 \<and> Q_delivered out < 0)"
proof -
  have h: "(control_mode (cfg reactive_env) = ''reactive'' \<or>
            sch_get_periods (scheduler_of reactive_env) (ts_date (hourly 12)) = []) \<and>
     target_temp (cfg reactive_env) \<le> 28.5 \<and> heat_demand reactive_env 28.5 12 < 0"
    by (simp add: reactive_env_def scenario_config_def)
  have v: "heat_demand reactive_env 28.5 12 = - 5" "0 \<le> hp_capacity_kw (cfg reactive_env)"
          "control_mode (cfg reactive_env) = ''reactive''"
    by (simp_all add: reactive_env_def scenario_config_def)
  from negative_demand_negative_dispatch [where e = reactive_env and ts = "hourly 12"
      and T_water = "28.5" and idx = 12 and st = initial_state] h
  obtain out where
    o: "execute_control reactive_env initial_state 12 28.5 (hourly 12) = Inr (out, initial_state)"
       "Q_needed out = heat_demand reactive_env 28.5 12"
       "0 \<le> hp_capacity_kw (cfg reactive_env) \<longrightarrow> Q_hp out = Q_needed out"
       "Q_delivered out < 0"
    by blast
  with v have "Q_hp out = - 5" "Q_needed out = - 5" by simp_all
  with o h v show ?thesis by blast
qed

text \<open>
  C6.  With a heat pump of 100 kW, a boiler of 200 kW and a thermal mass rate below
  150 kWh/K, an average demand of 250 kW is case 3: the overnight target is the maximum
  temperature, the heat pump runs at 100 kW and the boiler at 150 kW during the day.  A
  plan whose forecast average demand is 250 kW carries these values.
\<close>

theorem case3_at_250:
  "hp_capacity_kw (cfg e) = 100 \<and> boiler_capacity_kw (cfg e) = 200 \<and>
   100 + thermal_mass_rate (cfg e) < 250 \<longrightarrow>
     classify_demand (cfg e) 250 = (3, max_temp (cfg e), 100, 150) \<and>
     (\<forall>plan. plan_closed_period e current_idx T_water ts = Inr (Some plan) \<and>
             forecast_demand plan = 250 \<longrightarrow>
        cp_case plan = 3 \<and> target_night plan = max_temp (cfg e) \<and>
        day_hp_power plan = 100 \<and> day_boiler_power plan = 150 \<and>
        day_boiler_power plan = forecast_demand plan - hp_capacity_kw (cfg e))"
proof (intro impI conjI allI)
  assume h: "hp_capacity_kw (cfg e) = 100 \<and> boiler_capacity_kw (cfg e) = 200 \<and>
   100 + thermal_mass_rate (cfg e) < 250"
  then show c: "classify_demand (cfg e) 250 = (3, max_temp (cfg e), 100, 150)"
    by (simp add: classify_demand_def Let_def)
  fix plan
  assume p: "plan_closed_period e current_idx T_water ts = Inr (Some plan) \<and>
             forecast_demand plan = 250"
  then have "cp_case plan = 3 \<and> target_night plan = max_temp (cfg e) \<and>
        day_hp_power plan = 100 \<and> day_boiler_power plan = 150"
    using c
    by (auto simp: plan_closed_period_def Let_def split: option.splits sum.splits prod.splits)
  then show "cp_case plan = 3" "target_night plan = max_temp (cfg e)"
    "day_hp_power plan = 100" "day_boiler_power plan = 150"
    "day_boiler_power plan = forecast_demand plan - hp_capacity_kw (cfg e)"
    using h p by simp_all
qed

lemma small_pool_plan:
  "plan_closed_period small_pool_env 20 28 (hourly 20) =
     Inr (Some \<lparr>cp_case = 3, target_night = 29, day_hp_power = 100,
          day_boiler_power = 150, start_hp_in = 0,
          start_boiler_in = Some (10507 / 3600), night_hp_power = 100,
          night_boiler_power = 200, hours_to_open = 14,
          forecast_demand = 250, energy_needed = 65093 / 18\<rparr>)"
  by (simp add: plan_closed_period_def small_pool_env_def hourly_def daily_scheduler_def
      forecast_rows_def upt_rec scenario_config_def classify_demand_def average_def
      thermal_mass_rate_def night_heating_def night_energy_def Let_def)

theorem case3_at_250_witness:
  "hp_capacity_kw (cfg small_pool_env) = 100 \<and> boiler_capacity_kw (cfg small_pool_env) = 200 \<and>
   100 + thermal_mass_rate (cfg small_pool_env) < 250 \<and>
   max_temp (cfg small_pool_env) = 29 \<and>
   classify_demand (cfg small_pool_env) 250 = (3, 29, 100, 150) \<and>
   (\<exists>plan. plan_closed_period small_pool_env 20 28 (hourly 20) = Inr (Some plan) \<and>
      hours_to_open plan = 14 \<and> forecast_demand plan = 250 \<and>
      cp_case plan = 3 \<and> target_night plan = 29 \<and>
      day_hp_power plan = 100 \<and> day_boiler_power plan = 150)"
proof -
  have h: "hp_capacity_kw (cfg small_pool_env) = 100 \<and>
     boiler_capacity_kw (cfg small_pool_env) = 200 \<and>
     100 + thermal_mass_rate (cfg small_pool_env) < 250"
    by (simp add: small_pool_env_def scenario_config_def thermal_mass_rate_def)
  have m: "max_temp (cfg small_pool_env) = 29"
    by (simp add: small_pool_env_def scenario_config_def)
  note t = case3_at_250 [where e = small_pool_env and current_idx = 20 and T_water = 28
      and ts = "hourly 20"]
  from t h m have c: "classify_demand (cfg small_pool_env) 250 = (3, 29, 100, 150)"
    by simp
  from t h small_pool_plan m
  have "\<exists>plan. plan_closed_period small_pool_env 20 28 (hourly 20) = Inr (Some plan) \<and>
      hours_to_open plan = 14 \<and> forecast_demand plan = 250 \<and>
      cp_case plan = 3 \<and> target_night plan = 29 \<and>
      day_hp_power plan = 100 \<and> day_boiler_power plan = 150"
    by simp
  with h m c show ?thesis by blast
qed

lemma frac_power_le:
  fixes cap s :: real
  assumes "0 \<le> cap"
  shows "cap * (1 - (s - real_of_int \<lfloor>s\<rfloor>)) \<le> cap"
proof -
  have "0 \<le> s - real_of_int \<lfloor>s\<rfloor>" by simp
  then have "0 \<le> cap * (s - real_of_int \<lfloor>s\<rfloor>)"
    using assms by (rule mult_nonneg_nonneg [rotated])
  then show ?thesis by (simp add: algebra_simps)
qed

lemma hp_activation_factor:
  "0 \<le> cap \<Longrightarrow> cap * snd (hp_activation p h) \<le> cap"
  using frac_power_le [of cap "start_hp_in p"]
  by (simp add: hp_activation_def Let_def)

lemma boiler_activation_factor:
  "0 \<le> cap \<Longrightarrow> cap * snd (boiler_activation p h) \<le> cap"
  by (simp add: boiler_activation_def Let_def frac_power_le split: option.splits)

lemma apply_power_bounds:
  assumes hp: "night_hp_power p = hp_capacity_kw c"
    and bo: "night_boiler_power p = 0 \<or> night_boiler_power p = boiler_capacity_kw c"
    and c1: "0 \<le> hp_capacity_kw c" and c2: "0 \<le> boiler_capacity_kw c"
  shows "fst (apply_power c p (hp_activation p h) (boiler_activation p h) qn q) \<le> hp_capacity_kw c"
    and "snd (apply_power c p (hp_activation p h) (boiler_activation p h) qn q) \<le> boiler_capacity_kw c"
proof -
  have f1: "night_hp_power p * snd (hp_activation p h) \<le> hp_capacity_kw c"
    using hp hp_activation_factor [OF c1, of p h] by simp
  have f2: "night_boiler_power p * snd (boiler_activation p h) \<le> boiler_capacity_kw c"
    using bo boiler_activation_factor [OF c2, of p h] c2 by auto
  show "fst (apply_power c p (hp_activation p h) (boiler_activation p h) qn q) \<le> hp_capacity_kw c"
    using f1 by (simp add: apply_power_def Let_def min_le_iff_disj)
  show "snd (apply_power c p (hp_activation p h) (boiler_activation p h) qn q) \<le> boiler_capacity_kw c"
    using f2 c2 by (simp add: apply_power_def Let_def min_le_iff_disj)
qed

lemma closed_dispatch_bounds:
  assumes d: "closed_dispatch c p h T q = (qn, qh, qb, l, pre)"
    and hp: "night_hp_power p = hp_capacity_kw c"
    and bo: "night_boiler_power p = 0 \<or> night_boiler_power p = boiler_capacity_kw c"
    and c1: "0 \<le> hp_capacity_kw c" and c2: "0 \<le> boiler_capacity_kw c"
  shows "qh \<le> hp_capacity_kw c \<and> qb \<le> boiler_capacity_kw c"
proof -
  obtain qn' pr' l' where n: "closed_needed c p (fst (hp_activation p h))
      (fst (boiler_activation p h)) (real (hours_to_open p) - h) T q = (qn', pr', l')"
    by (cases "closed_needed c p (fst (hp_activation p h))
      (fst (boiler_activation p h)) (real (hours_to_open p) - h) T q") auto
  from d n have "qh = fst (apply_power c p (hp_activation p h) (boiler_activation p h) qn' q)"
    and "qb = snd (apply_power c p (hp_activation p h) (boiler_activation p h) qn' q)"
    by (simp_all add: closed_dispatch_def Let_def split: prod.splits)
  then show ?thesis
    using apply_power_bounds [OF hp bo c1 c2] by simp
qed

subsection \<open>What the planner returns\<close>

lemma night_heating_result:
  assumes "night_heating e i T h tn = Inr (shp, sb, nhp, nb, tot)"
  shows "nhp = hp_capacity_kw (cfg e)"
    and "nb = 0 \<or> nb = boiler_capacity_kw (cfg e)"
    and "tot \<le> hp_capacity_kw (cfg e) * real h \<Longrightarrow> sb = None \<and> nb = 0"
  using assms
  by (auto simp: night_heating_def Let_def split: prod.splits if_splits)

lemma plan_closed_period_night:
  assumes "plan_closed_period e i T ts = Inr (Some p)"
  shows "\<exists>tn. night_heating e i T (hours_to_open p) tn =
           Inr (start_hp_in p, start_boiler_in p, night_hp_power p, night_boiler_power p,
                energy_needed p)"
  using assms
  by (auto simp: plan_closed_period_def Let_def
      split: option.splits sum.splits prod.splits if_splits)

lemma plan_closed_period_capacity:
  assumes "plan_closed_period e i T ts = Inr (Some p)"
  shows "plan_within_capacity (cfg e) p"
proof -
  from plan_closed_period_night [OF assms] obtain tn where
    "night_heating e i T (hours_to_open p) tn =
       Inr (start_hp_in p, start_boiler_in p, night_hp_power p, night_boiler_power p,
            energy_needed p)" by blast
  from night_heating_result(1,2) [OF this] show ?thesis
    by (simp add: plan_within_capacity_def)
qed

lemma plan_closed_period_hp_only:
  assumes "plan_closed_period e i T ts = Inr (Some p)"
    and "energy_needed p \<le> hp_capacity_kw (cfg e) * real (hours_to_open p)"
  shows "hp_only p"
proof -
  from plan_closed_period_night [OF assms(1)] obtain tn where
    "night_heating e i T (hours_to_open p) tn =
       Inr (start_hp_in p, start_boiler_in p, night_hp_power p, night_boiler_power p,
            energy_needed p)" by blast
  from night_heating_result(3) [OF this assms(2)] show ?thesis
    by (simp add: hp_only_def)
qed

lemma handle_transitions_state_ok:
  "state_ok (cfg e) st \<Longrightarrow> handle_transitions e i T ts ps trs st = Inr st' \<Longrightarrow>
   state_ok (cfg e) st'"
proof (induction trs arbitrary: st)
  case Nil
  then show ?case by simp
next
  case (Cons tr trs)
  show ?case
  proof (cases "ts_hour ts = tr_time tr")
    case False
    with Cons show ?thesis by simp
  next
    case True
    show ?thesis
    proof (cases "tr_type tr")
      case Open_transition
      show ?thesis
      proof (cases "find (\<lambda>p. p_from p = ts_hour ts) ps")
        case None
        with Cons True Open_transition show ?thesis by simp
      next
        case (Some p)
        with Cons.prems True Open_transition obtain plan where
          pl: "plan_period_opening e i T p = Inr plan" and
          r: "handle_transitions e i T ts ps trs (st\<lparr>open_plan := Some plan\<rparr>) = Inr st'"
          by (auto split: sum.splits)
        have "state_ok (cfg e) (st\<lparr>open_plan := Some plan\<rparr>)"
          using Cons.prems(1) by (simp add: state_ok_def)
        from Cons.IH [OF this r] show ?thesis .
      qed
    next
      case Close_transition
      with Cons.prems True obtain plan where
        pl: "plan_closed_period e i T ts = Inr plan" and
        r: "handle_transitions e i T ts ps trs (st\<lparr>closed_plan := plan\<rparr>) = Inr st'"
        by (auto split: sum.splits)
      have "state_ok (cfg e) (st\<lparr>closed_plan := plan\<rparr>)"
        using pl plan_closed_period_capacity [of e i T ts]
        by (cases plan) (simp_all add: state_ok_def)
      from Cons.IH [OF this r] show ?thesis .
    qed
  qed
qed

lemma thermostat_bounds:
  "Q_hp (thermostat c T q k l) \<le> hp_capacity_kw c \<and>
   Q_boiler (thermostat c T q k l) \<le> boiler_capacity_kw c"
  by (simp add: thermostat_def Let_def)

lemma finish_control_fields:
  "Q_needed (finish_control qn qh qb k l cs pr) = qn"
  "Q_hp (finish_control qn qh qb k l cs pr) = qh"
  "Q_boiler (finish_control qn qh qb k l cs pr) = qb"
  "Q_delivered (finish_control qn qh qb k l cs pr) = qh + qb"
  "Q_unmet (finish_control qn qh qb k l cs pr) = max 0 (qn - (qh + qb))"
  "ctl_case (finish_control qn qh qb k l cs pr) = cs"
  by (simp_all add: finish_control_def Let_def)

text \<open>The branches of \<open>execute_control\<close>, one lemma each.\<close>

lemma execute_control_reactive:
  "control_mode (cfg e) = ''reactive'' \<Longrightarrow>
   execute_control e st i T ts =
     Inr (thermostat (cfg e) T (heat_demand e T i) (hp_cop_nominal (cfg e)) Mode_reactive, st)"
  by (simp add: execute_control_def Let_def)

lemma execute_control_no_periods:
  "control_mode (cfg e) \<noteq> ''reactive'' \<Longrightarrow> sch_get_periods (scheduler_of e) (ts_date ts) = [] \<Longrightarrow>
   execute_control e st i T ts =
     Inr (thermostat (cfg e) T (heat_demand e T i) (hp_cop_nominal (cfg e)) Mode_no_periods, st)"
  by (simp add: execute_control_def Let_def)

lemma execute_control_open:
  assumes "control_mode (cfg e) \<noteq> ''reactive''"
    and "sch_get_periods (scheduler_of e) (ts_date ts) = ps" and "ps \<noteq> []"
    and "sch_get_current_period_info (scheduler_of e) ts ps = Some cp"
    and "execute_control e st i T ts = Inr (out, st')"
  shows "\<exists>st1 plan.
           handle_transitions e i T ts ps
             (sch_get_daily_transitions (scheduler_of e) (ts_date ts)) st = Inr st1 \<and>
           (case open_plan st1 of None \<Rightarrow> plan_period_opening e i T cp | Some pl \<Rightarrow> Inr pl)
              = Inr plan \<and>
           st' = st1\<lparr>open_plan := Some plan\<rparr> \<and>
           out = finish_control (heat_demand e T i)
                   (min (hp_rate_day plan) (hp_capacity_kw (cfg e)))
                   (min (boiler_rate_day plan) (boiler_capacity_kw (cfg e)))
                   (hp_cop_nominal (cfg e))
                   (if min (boiler_rate_day plan) (boiler_capacity_kw (cfg e)) > 0
                    then Mode_open_hp_boiler (op_case plan) else Mode_open_hp (op_case plan))
                   (op_case plan) False"
  using assms
  by (auto simp: execute_control_def Let_def split: sum.splits option.splits)

lemma execute_control_closed:
  assumes "control_mode (cfg e) \<noteq> ''reactive''"
    and "sch_get_periods (scheduler_of e) (ts_date ts) = ps" and "ps \<noteq> []"
    and "sch_get_current_period_info (scheduler_of e) ts ps = None"
    and "execute_control e st i T ts = Inr (out, st')"
  shows "\<exists>st1 cpl.
           handle_transitions e i T ts ps
             (sch_get_daily_transitions (scheduler_of e) (ts_date ts)) st = Inr st1 \<and>
           (case closed_plan st1 of None \<Rightarrow> plan_closed_period e i T ts
            | Some pl \<Rightarrow> Inr (Some pl)) = Inr cpl \<and>
           st' = st1\<lparr>closed_plan := cpl\<rparr> \<and>
           (case cpl of
              None \<Rightarrow>
                out = finish_control (heat_demand e T i)
                        (min (heat_demand e T i) (hp_capacity_kw (cfg e))) 0
                        (hp_cop_nominal (cfg e)) Mode_closed_no_plan 0 False
            | Some plan \<Rightarrow>
                (\<exists>h qn qh qb l pr.
                   hours_since_plan_of e ts ps = Inr h \<and>
                   closed_dispatch (cfg e) plan h T (heat_demand e T i) = (qn, qh, qb, l, pr) \<and>
                   out = finish_control qn qh qb (hp_cop_nominal (cfg e)) l (cp_case plan) pr))"
  using assms
  by (auto simp: execute_control_def Let_def split: sum.splits option.splits prod.splits)

subsection \<open>Capacity\<close>

lemma execute_control_within_capacity:
  assumes c1: "0 \<le> hp_capacity_kw (cfg e)" and c2: "0 \<le> boiler_capacity_kw (cfg e)"
    and ok: "state_ok (cfg e) st"
    and ex: "execute_control e st i T ts = Inr (out, st')"
  shows "Q_hp out \<le> hp_capacity_kw (cfg e) \<and> Q_boiler out \<le> boiler_capacity_kw (cfg e) \<and>
         state_ok (cfg e) st'"
proof (cases "control_mode (cfg e) = ''reactive''")
  case True
  with ex ok thermostat_bounds show ?thesis
    by (auto simp: execute_control_reactive)
next
  case nr: False
  define ps where "ps = sch_get_periods (scheduler_of e) (ts_date ts)"
  show ?thesis
  proof (cases "ps = []")
    case True
    with nr ex ok thermostat_bounds show ?thesis
      by (auto simp: execute_control_no_periods ps_def)
  next
    case ne: False
    show ?thesis
    proof (cases "sch_get_current_period_info (scheduler_of e) ts ps")
      case (Some cp)
      from execute_control_open [OF nr ps_def [symmetric] ne Some ex]
      obtain st1 plan where
        h: "handle_transitions e i T ts ps
             (sch_get_daily_transitions (scheduler_of e) (ts_date ts)) st = Inr st1"
        and s: "st' = st1\<lparr>open_plan := Some plan\<rparr>"
        and o: "out = finish_control (heat_demand e T i)
                   (min (hp_rate_day plan) (hp_capacity_kw (cfg e)))
                   (min (boiler_rate_day plan) (boiler_capacity_kw (cfg e)))
                   (hp_cop_nominal (cfg e))
                   (if min (boiler_rate_day plan) (boiler_capacity_kw (cfg e)) > 0
                    then Mode_open_hp_boiler (op_case plan) else Mode_open_hp (op_case plan))
                   (op_case plan) False"
        by blast
      have "state_ok (cfg e) st1"
        using handle_transitions_state_ok [OF ok h] .
      then have "state_ok (cfg e) st'"
        using s by (simp add: state_ok_def)
      then show ?thesis
        using o by (simp add: finish_control_fields)
    next
      case None
      from execute_control_closed [OF nr ps_def [symmetric] ne None ex]
      obtain st1 cpl where
        h: "handle_transitions e i T ts ps
             (sch_get_daily_transitions (scheduler_of e) (ts_date ts)) st = Inr st1"
        and pl: "(case closed_plan st1 of None \<Rightarrow> plan_closed_period e i T ts
                  | Some pl \<Rightarrow> Inr (Some pl)) = Inr cpl"
        and s: "st' = st1\<lparr>closed_plan := cpl\<rparr>"
        and o: "(case cpl of
              None \<Rightarrow>
                out = finish_control (heat_demand e T i)
                        (min (heat_demand e T i) (hp_capacity_kw (cfg e))) 0
                        (hp_cop_nominal (cfg e)) Mode_closed_no_plan 0 False
            | Some plan \<Rightarrow>
                (\<exists>h qn qh qb l pr.
                   hours_since_plan_of e ts ps = Inr h \<and>
                   closed_dispatch (cfg e) plan h T (heat_demand e T i) = (qn, qh, qb, l, pr) \<and>
                   out = finish_control qn qh qb (hp_cop_nominal (cfg e)) l (cp_case plan) pr))"
        by blast
      have ok1: "state_ok (cfg e) st1"
        using handle_transitions_state_ok [OF ok h] .
      show ?thesis
      proof (cases cpl)
        case n: None
        with o s c2 show ?thesis
          by (simp add: finish_control_fields state_ok_def)
      next
        case (Some plan)
        have pw: "plan_within_capacity (cfg e) plan"
        proof (cases "closed_plan st1")
          case None
          with pl Some have "plan_closed_period e i T ts = Inr (Some plan)" by simp
          then show ?thesis by (rule plan_closed_period_capacity)
        next
          case (Some q)
          with pl \<open>cpl = Some plan\<close> have "q = plan" by simp
          with Some ok1 show ?thesis by (simp add: state_ok_def)
        qed
        from o Some obtain h qn qh qb l pr where
          d: "closed_dispatch (cfg e) plan h T (heat_demand e T i) = (qn, qh, qb, l, pr)" and
          oo: "out = finish_control qn qh qb (hp_cop_nominal (cfg e)) l (cp_case plan) pr"
          by auto
        from pw have "night_hp_power plan = hp_capacity_kw (cfg e)"
          "night_boiler_power plan = 0 \<or> night_boiler_power plan = boiler_capacity_kw (cfg e)"
          by (simp_all add: plan_within_capacity_def)
        from closed_dispatch_bounds [OF d this c1 c2]
        have "qh \<le> hp_capacity_kw (cfg e) \<and> qb \<le> boiler_capacity_kw (cfg e)" .
        moreover have "state_ok (cfg e) st'"
          using s Some pw by (simp add: state_ok_def)
        ultimately show ?thesis
          using oo by (simp add: finish_control_fields)
      qed
    qed
  qed
qed

text \<open>
  The loop: what one step gives, and an invariant of the planner's state carried along
  the rows.
\<close>

lemma simulate_rows_Cons:
  assumes "simulate_rows e (idx # rest) T st = Inr rs"
  shows "\<exists>ctl st_next rs'.
           execute_control e st idx T (row_time e idx) = Inr (ctl, st_next) \<and>
           volume_m3 (cfg e) \<noteq> 0 \<and>
           simulate_rows e rest
             (clamp_temp (cfg e) (T + delta_T_hour (cfg e) (Q_delivered ctl) (heat_demand e T idx)))
             st_next = Inr rs' \<and>
           rs = \<lparr>hr_timestamp = row_time e idx,
                 water_temp = clamp_temp (cfg e)
                   (T + delta_T_hour (cfg e) (Q_delivered ctl) (heat_demand e T idx)),
                 net_demand = heat_demand e T idx,
                 control = ctl\<rparr> # rs'"
  using assms
  by (auto simp: Let_def clamp_temp_def delta_T_hour_def split: sum.splits if_splits)

lemma simulate_rows_invariant:
  assumes step: "\<And>st idx T out st'. I st \<Longrightarrow>
      execute_control e st idx T (row_time e idx) = Inr (out, st') \<Longrightarrow> P out \<and> I st'"
  shows "I st \<Longrightarrow> simulate_rows e idxs T st = Inr rs \<Longrightarrow> \<forall>r \<in> set rs. P (control r)"
proof (induction idxs arbitrary: T st rs)
  case Nil
  then show ?case by simp
next
  case (Cons idx rest)
  from simulate_rows_Cons [OF Cons.prems(2)] obtain ctl st_next rs' T' where
    ex: "execute_control e st idx T (row_time e idx) = Inr (ctl, st_next)" and
    re: "simulate_rows e rest T' st_next = Inr rs'" and
    rs: "rs = \<lparr>hr_timestamp = row_time e idx, water_temp = T',
               net_demand = heat_demand e T idx, control = ctl\<rparr> # rs'"
    by blast
  from step [OF Cons.prems(1) ex] have "P ctl" "I st_next" by simp_all
  with Cons.IH [OF \<open>I st_next\<close> re] rs show ?case by simp
qed

text \<open>
  C1.  With capacities that are not negative, every hour of a run dispatches at most the
  heat pump's capacity from the heat pump and at most the boiler's capacity from the
  boiler.  This holds for each single call of the controller from a state whose closed
  plan, if any, was made by the planner, in every branch: reactive, no periods, open,
  closed with a plan (also in case 4) and closed without one.
\<close>

theorem dispatch_within_capacity:
  "0 \<le> hp_capacity_kw (cfg e) \<and> 0 \<le> boiler_capacity_kw (cfg e) \<longrightarrow>
     (\<forall>st i T ts out st'.
         state_ok (cfg e) st \<and> execute_control e st i T ts = Inr (out, st') \<longrightarrow>
           Q_hp out \<le> hp_capacity_kw (cfg e) \<and> Q_boiler out \<le> boiler_capacity_kw (cfg e) \<and>
           state_ok (cfg e) st') \<and>
     (\<forall>results.
         simulate_year e = Inr results \<longrightarrow>
           (\<forall>r \<in> set results.
               Q_hp (control r) \<le> hp_capacity_kw (cfg e) \<and>
               Q_boiler (control r) \<le> boiler_capacity_kw (cfg e)))"
proof (intro impI conjI allI)
  assume c: "0 \<le> hp_capacity_kw (cfg e) \<and> 0 \<le> boiler_capacity_kw (cfg e)"
  then have c1: "0 \<le> hp_capacity_kw (cfg e)" and c2: "0 \<le> boiler_capacity_kw (cfg e)"
    by simp_all
  {
    fix st i T ts out st'
    assume "state_ok (cfg e) st \<and> execute_control e st i T ts = Inr (out, st')"
    then have "Q_hp out \<le> hp_capacity_kw (cfg e) \<and> Q_boiler out \<le> boiler_capacity_kw (cfg e) \<and>
           state_ok (cfg e) st'"
      using execute_control_within_capacity [OF c1 c2] by blast
    then show "Q_hp out \<le> hp_capacity_kw (cfg e)" "Q_boiler out \<le> boiler_capacity_kw (cfg e)"
      "state_ok (cfg e) st'" by simp_all
  }
  fix results
  assume r: "simulate_year e = Inr results"
  have i: "state_ok (cfg e) initial_state"
    by (simp add: state_ok_def initial_state_def)
  have "\<forall>r \<in> set results. Q_hp (control r) \<le> hp_capacity_kw (cfg e) \<and>
               Q_boiler (control r) \<le> boiler_capacity_kw (cfg e)"
  proof (rule simulate_rows_invariant [where I = "state_ok (cfg e)" and e = e
        and st = initial_state and T = "target_temp (cfg e)" and idxs = "[0 ..< n_rows e]"])
    fix st idx T out st'
    assume "state_ok (cfg e) st"
      "execute_control e st idx T (row_time e idx) = Inr (out, st')"
    then show "(Q_hp out \<le> hp_capacity_kw (cfg e) \<and> Q_boiler out \<le> boiler_capacity_kw (cfg e)) \<and>
      state_ok (cfg e) st'"
      using execute_control_within_capacity [OF c1 c2] by blast
  next
    show "state_ok (cfg e) initial_state" by (rule i)
  next
    show "simulate_rows e [0 ..< n_rows e] (target_temp (cfg e)) initial_state = Inr results"
      using r by (simp add: simulate_year_def)
  qed
  then show "\<forall>r \<in> set results. Q_hp (control r) \<le> hp_capacity_kw (cfg e) \<and>
               Q_boiler (control r) \<le> boiler_capacity_kw (cfg e)" .
qed
subsection \<open>Evaluating the examples\<close>

lemmas sim_eval_defs =
  execute_control_def handle_transitions.simps plan_closed_period_def
  plan_period_opening_def night_heating_def night_energy_def classify_demand_def average_def
  thermal_mass_rate_def forecast_rows_def closed_dispatch_def hp_activation_def
  boiler_activation_def closed_needed_def apply_power_def finish_control_def thermostat_def
  hours_since_plan_of_def initial_state_def hourly_def daily_scheduler_def daily_period_def
  scenario_config_def Let_def upt_rec

lemma overload_step:
  "execute_control overload_env initial_state 0 28 (hourly 0) =
     Inr (\<lparr>Q_needed = 39893 / 108, Q_hp = 100, Q_boiler = 200,
         Q_delivered = 300, Q_unmet = 7493 / 108, cop = 23 / 5,
         hp_electric = 500 / 23, mode = Mode_closed_heat 4 True,
         ctl_case = 4, preheat = True\<rparr>,
      \<lparr>open_plan = None,
         closed_plan =
           Some
            \<lparr>cp_case = 4, target_night = 29, day_hp_power = 100,
               day_boiler_power = 200, start_hp_in = 0,
               start_boiler_in = Some 0, night_hp_power = 100,
               night_boiler_power = 200, hours_to_open = 10,
               forecast_demand = 350, energy_needed = 65093 / 18\<rparr>\<rparr>)"
  by (simp add: sim_eval_defs overload_env_def)

lemma two_hour_step0:
  "execute_control two_hour_env initial_state 0 28 (hourly 0) =
     Inr (two_hour_ctl0, two_hour_state)"
  by (simp add: sim_eval_defs overload_env_def two_hour_env_def two_hour_state_def
      two_hour_ctl0_def)

lemma two_hour_step1:
  "execute_control two_hour_env two_hour_state 1 (54104 / 2093) (hourly 1) =
     Inr (two_hour_ctl1, two_hour_state)"
  by (simp add: sim_eval_defs overload_env_def two_hour_env_def two_hour_state_def
      two_hour_ctl1_def)

lemma simulate_rows_step:
  assumes ex: "execute_control e st idx T (row_time e idx) = Inr (ctl, st')"
    and v: "volume_m3 (cfg e) \<noteq> 0"
    and t: "clamp_temp (cfg e)
              (T + delta_T_hour (cfg e) (Q_delivered ctl) (heat_demand e T idx)) = T'"
    and r: "simulate_rows e rest T' st' = Inr rs'"
  shows "simulate_rows e (idx # rest) T st =
           Inr (\<lparr>hr_timestamp = row_time e idx, water_temp = T',
                 net_demand = heat_demand e T idx, control = ctl\<rparr> # rs')"
proof -
  have nz: "(volume_m3 (cfg e) * 1000 * 4186 = 0) = False"
    using v by simp
  show ?thesis
    apply (subst simulate_rows.simps)
    apply (simp only: ex sum.case prod.case Let_def nz if_False)
    apply (simp only: t [unfolded clamp_temp_def delta_T_hour_def] r sum.case)
    done
qed

lemma two_hour_run: "simulate_year two_hour_env = Inr two_hour_results"
proof -
  have f: "n_rows two_hour_env = 2" "row_time two_hour_env = hourly"
    "heat_demand two_hour_env = (\<lambda>T i. 350)" "volume_m3 (cfg two_hour_env) = 100"
    "target_temp (cfg two_hour_env) = 28" "min_temp (cfg two_hour_env) = 26"
    "max_temp (cfg two_hour_env) = 29"
    by (simp_all add: two_hour_env_def overload_env_def scenario_config_def)
  have q: "Q_delivered two_hour_ctl0 = 100" "Q_delivered two_hour_ctl1 = 100"
    by (simp_all add: two_hour_ctl0_def two_hour_ctl1_def)
  have t1: "clamp_temp (cfg two_hour_env)
      (54104 / 2093 + delta_T_hour (cfg two_hour_env) (Q_delivered two_hour_ctl1)
         (heat_demand two_hour_env (54104 / 2093) 1)) = 25"
    by (simp add: clamp_temp_def delta_T_hour_def f q)
  have t0: "clamp_temp (cfg two_hour_env)
      (28 + delta_T_hour (cfg two_hour_env) (Q_delivered two_hour_ctl0)
         (heat_demand two_hour_env 28 0)) = 54104 / 2093"
    by (simp add: clamp_temp_def delta_T_hour_def f q)
  have v: "volume_m3 (cfg two_hour_env) \<noteq> 0" by (simp add: f)
  have e1: "execute_control two_hour_env two_hour_state 1 (54104 / 2093)
      (row_time two_hour_env 1) = Inr (two_hour_ctl1, two_hour_state)"
    using two_hour_step1 by (simp only: f)
  have e0: "execute_control two_hour_env initial_state 0 28
      (row_time two_hour_env 0) = Inr (two_hour_ctl0, two_hour_state)"
    using two_hour_step0 by (simp only: f)
  have n: "simulate_rows two_hour_env [] 25 two_hour_state = Inr []" by simp
  note s1 = simulate_rows_step [OF e1 v t1 n]
  note s0 = simulate_rows_step [OF e0 v t0 s1]
  have l: "[0 ..< n_rows two_hour_env] = [0, 1]"
    by (simp add: f upt_rec)
  have r: "two_hour_results =
     [\<lparr>hr_timestamp = row_time two_hour_env 0, water_temp = 54104 / 2093,
        net_demand = heat_demand two_hour_env 28 0, control = two_hour_ctl0\<rparr>,
      \<lparr>hr_timestamp = row_time two_hour_env 1, water_temp = 25,
        net_demand = heat_demand two_hour_env (54104 / 2093) 1, control = two_hour_ctl1\<rparr>]"
    by (simp add: two_hour_results_def f)
  show ?thesis
    unfolding simulate_year_def l f(5) r by (rule s0)
qed
theorem dispatch_within_capacity_witness:
  "0 \<le> hp_capacity_kw (cfg overload_env) \<and> 0 \<le> boiler_capacity_kw (cfg overload_env) \<and>
   state_ok (cfg overload_env) initial_state \<and>
   (\<exists>out st'. execute_control overload_env initial_state 0 28 (hourly 0) = Inr (out, st') \<and>
      ctl_case out = 4 \<and> 300 < Q_needed out \<and>
      Q_hp out \<le> hp_capacity_kw (cfg overload_env) \<and>
      Q_boiler out \<le> boiler_capacity_kw (cfg overload_env) \<and>
      state_ok (cfg overload_env) st') \<and>
   0 \<le> hp_capacity_kw (cfg two_hour_env) \<and> 0 \<le> boiler_capacity_kw (cfg two_hour_env) \<and>
   simulate_year two_hour_env = Inr two_hour_results \<and>
   length two_hour_results = 2 \<and>
   Q_hp (control (two_hour_results ! 0)) \<le> hp_capacity_kw (cfg two_hour_env) \<and>
   Q_boiler (control (two_hour_results ! 0)) \<le> boiler_capacity_kw (cfg two_hour_env) \<and>
   Q_hp (control (two_hour_results ! 1)) \<le> hp_capacity_kw (cfg two_hour_env) \<and>
   Q_boiler (control (two_hour_results ! 1)) \<le> boiler_capacity_kw (cfg two_hour_env)"
proof -
  have c: "0 \<le> hp_capacity_kw (cfg overload_env) \<and> 0 \<le> boiler_capacity_kw (cfg overload_env)"
    by (simp add: overload_env_def scenario_config_def)
  have c': "0 \<le> hp_capacity_kw (cfg two_hour_env) \<and> 0 \<le> boiler_capacity_kw (cfg two_hour_env)"
    by (simp add: two_hour_env_def overload_env_def scenario_config_def)
  have i: "state_ok (cfg overload_env) initial_state"
    by (simp add: state_ok_def initial_state_def)
  obtain out st' where
    s: "execute_control overload_env initial_state 0 28 (hourly 0) = Inr (out, st')" and
    o: "ctl_case out = 4" "300 < Q_needed out"
    using overload_step by simp
  from dispatch_within_capacity [where e = overload_env] c i s
  have b: "Q_hp out \<le> hp_capacity_kw (cfg overload_env) \<and>
      Q_boiler out \<le> boiler_capacity_kw (cfg overload_env) \<and> state_ok (cfg overload_env) st'"
    by blast
  from dispatch_within_capacity [where e = two_hour_env] c' two_hour_run
  have a: "\<forall>r \<in> set two_hour_results.
      Q_hp (control r) \<le> hp_capacity_kw (cfg two_hour_env) \<and>
      Q_boiler (control r) \<le> boiler_capacity_kw (cfg two_hour_env)"
    by blast
  have l: "length two_hour_results = 2"
    by (simp add: two_hour_results_def)
  then have "two_hour_results ! 0 \<in> set two_hour_results"
    "two_hour_results ! 1 \<in> set two_hour_results"
    by simp_all
  with a have r: "Q_hp (control (two_hour_results ! 0)) \<le> hp_capacity_kw (cfg two_hour_env)"
    "Q_boiler (control (two_hour_results ! 0)) \<le> boiler_capacity_kw (cfg two_hour_env)"
    "Q_hp (control (two_hour_results ! 1)) \<le> hp_capacity_kw (cfg two_hour_env)"
    "Q_boiler (control (two_hour_results ! 1)) \<le> boiler_capacity_kw (cfg two_hour_env)"
    by blast+
  show ?thesis
    using c c' i s o b two_hour_run l r by blast
qed

subsection \<open>Water temperature\<close>

lemma clamp_temp_range:
  "min_temp c - 1 \<le> max_temp c \<Longrightarrow>
   min_temp c - 1 \<le> clamp_temp c T \<and> clamp_temp c T \<le> max_temp c"
  by (simp add: clamp_temp_def)

lemma simulate_rows_temps:
  "simulate_rows e idxs T st = Inr rs \<Longrightarrow>
   length rs = length idxs \<and>
   (\<forall>i < length rs.
      water_temp (rs ! i) =
        clamp_temp (cfg e)
          ((if i = 0 then T else water_temp (rs ! (i - 1)))
           + delta_T_hour (cfg e) (Q_delivered (control (rs ! i))) (net_demand (rs ! i))) \<and>
      net_demand (rs ! i) =
        heat_demand e (if i = 0 then T else water_temp (rs ! (i - 1))) (idxs ! i))"
proof (induction idxs arbitrary: T st rs)
  case Nil
  then show ?case by simp
next
  case (Cons idx rest)
  from simulate_rows_Cons [OF Cons.prems] obtain ctl st_next rs' where
    re: "simulate_rows e rest
             (clamp_temp (cfg e) (T + delta_T_hour (cfg e) (Q_delivered ctl) (heat_demand e T idx)))
             st_next = Inr rs'" and
    rs: "rs = \<lparr>hr_timestamp = row_time e idx,
                 water_temp = clamp_temp (cfg e)
                   (T + delta_T_hour (cfg e) (Q_delivered ctl) (heat_demand e T idx)),
                 net_demand = heat_demand e T idx,
                 control = ctl\<rparr> # rs'"
    by blast
  define T' where
    "T' = clamp_temp (cfg e) (T + delta_T_hour (cfg e) (Q_delivered ctl) (heat_demand e T idx))"
  from Cons.IH [OF re] have
    len: "length rs' = length rest" and
    ih: "\<forall>i < length rs'.
      water_temp (rs' ! i) =
        clamp_temp (cfg e)
          ((if i = 0 then T' else water_temp (rs' ! (i - 1)))
           + delta_T_hour (cfg e) (Q_delivered (control (rs' ! i))) (net_demand (rs' ! i))) \<and>
      net_demand (rs' ! i) =
        heat_demand e (if i = 0 then T' else water_temp (rs' ! (i - 1))) (rest ! i)"
    by (simp_all add: T'_def)
  have w0: "water_temp (rs ! 0) = T'" by (simp add: rs T'_def)
  show ?case
  proof (intro conjI allI impI)
    show "length rs = length (idx # rest)" using len rs by simp
  next
    fix i assume i: "i < length rs"
    show "water_temp (rs ! i) =
        clamp_temp (cfg e)
          ((if i = 0 then T else water_temp (rs ! (i - 1)))
           + delta_T_hour (cfg e) (Q_delivered (control (rs ! i))) (net_demand (rs ! i)))"
    proof (cases i)
      case 0
      then show ?thesis by (simp add: rs)
    next
      case (Suc j)
      with i rs have j: "j < length rs'" by simp
      have p: "(if j = 0 then T' else water_temp (rs' ! (j - 1))) = water_temp (rs ! j)"
        using w0 by (cases j) (simp_all add: rs)
      from ih j p show ?thesis by (simp add: Suc rs)
    qed
  next
    fix i assume i: "i < length rs"
    show "net_demand (rs ! i) =
        heat_demand e (if i = 0 then T else water_temp (rs ! (i - 1))) ((idx # rest) ! i)"
    proof (cases i)
      case 0
      then show ?thesis by (simp add: rs)
    next
      case (Suc j)
      with i rs have j: "j < length rs'" by simp
      have p: "(if j = 0 then T' else water_temp (rs' ! (j - 1))) = water_temp (rs ! j)"
        using w0 by (cases j) (simp_all add: rs)
      from ih j p show ?thesis by (simp add: Suc rs)
    qed
  qed
qed

text \<open>
  C2.  When the target temperature lies in \<open>[min_temp - 1, max_temp]\<close>, a run that
  returns gives one record for each weather row, and every water temperature in it lies in
  \<open>[min_temp - 1, max_temp]\<close>: the temperature of an hour is the one of the hour before
  (the target temperature for the first hour) plus
  \<open>(Q_delivered - Q_demand) * 3600 * 1000 / (volume_m3 * 1000 * 4186)\<close>, clamped to
  that interval, and the demand of an hour is the one at the temperature carried over.
\<close>

theorem water_temp_in_range:
  "min_temp (cfg e) - 1 \<le> target_temp (cfg e) \<and> target_temp (cfg e) \<le> max_temp (cfg e) \<and>
   simulate_year e = Inr results \<longrightarrow>
     length results = n_rows e \<and>
     (\<forall>i < length results.
        min_temp (cfg e) - 1 \<le> water_temp (results ! i) \<and>
        water_temp (results ! i) \<le> max_temp (cfg e) \<and>
        water_temp (results ! i) =
          max (min_temp (cfg e) - 1)
            (min (max_temp (cfg e))
               ((if i = 0 then target_temp (cfg e) else water_temp (results ! (i - 1)))
                + (Q_delivered (control (results ! i)) - net_demand (results ! i)) * 3600 * 1000
                    / (volume_m3 (cfg e) * 1000 * 4186))) \<and>
        net_demand (results ! i) =
          heat_demand e (if i = 0 then target_temp (cfg e) else water_temp (results ! (i - 1))) i)"
proof
  assume h: "min_temp (cfg e) - 1 \<le> target_temp (cfg e) \<and> target_temp (cfg e) \<le> max_temp (cfg e) \<and>
   simulate_year e = Inr results"
  then have m: "min_temp (cfg e) - 1 \<le> max_temp (cfg e)" by simp
  from h have r: "simulate_rows e [0 ..< n_rows e] (target_temp (cfg e)) initial_state = Inr results"
    by (simp add: simulate_year_def)
  from simulate_rows_temps [OF r] have
    len: "length results = n_rows e" and
    st: "\<forall>i < length results.
      water_temp (results ! i) =
        clamp_temp (cfg e)
          ((if i = 0 then target_temp (cfg e) else water_temp (results ! (i - 1)))
           + delta_T_hour (cfg e) (Q_delivered (control (results ! i))) (net_demand (results ! i))) \<and>
      net_demand (results ! i) =
        heat_demand e (if i = 0 then target_temp (cfg e) else water_temp (results ! (i - 1)))
          ([0 ..< n_rows e] ! i)"
    by simp_all
  show "length results = n_rows e \<and>
     (\<forall>i < length results.
        min_temp (cfg e) - 1 \<le> water_temp (results ! i) \<and>
        water_temp (results ! i) \<le> max_temp (cfg e) \<and>
        water_temp (results ! i) =
          max (min_temp (cfg e) - 1)
            (min (max_temp (cfg e))
               ((if i = 0 then target_temp (cfg e) else water_temp (results ! (i - 1)))
                + (Q_delivered (control (results ! i)) - net_demand (results ! i)) * 3600 * 1000
                    / (volume_m3 (cfg e) * 1000 * 4186))) \<and>
        net_demand (results ! i) =
          heat_demand e (if i = 0 then target_temp (cfg e) else water_temp (results ! (i - 1))) i)"
  proof (intro conjI allI impI)
    show "length results = n_rows e" by (rule len)
  next
    fix i assume i: "i < length results"
    with st have w: "water_temp (results ! i) =
        clamp_temp (cfg e)
          ((if i = 0 then target_temp (cfg e) else water_temp (results ! (i - 1)))
           + delta_T_hour (cfg e) (Q_delivered (control (results ! i))) (net_demand (results ! i)))"
      and d: "net_demand (results ! i) =
        heat_demand e (if i = 0 then target_temp (cfg e) else water_temp (results ! (i - 1)))
          ([0 ..< n_rows e] ! i)"
      by simp_all
    from w clamp_temp_range [OF m]
    show "min_temp (cfg e) - 1 \<le> water_temp (results ! i)"
      "water_temp (results ! i) \<le> max_temp (cfg e)" by simp_all
    from w show "water_temp (results ! i) =
          max (min_temp (cfg e) - 1)
            (min (max_temp (cfg e))
               ((if i = 0 then target_temp (cfg e) else water_temp (results ! (i - 1)))
                + (Q_delivered (control (results ! i)) - net_demand (results ! i)) * 3600 * 1000
                    / (volume_m3 (cfg e) * 1000 * 4186)))"
      unfolding clamp_temp_def delta_T_hour_def .
    from d i len show "net_demand (results ! i) =
          heat_demand e (if i = 0 then target_temp (cfg e) else water_temp (results ! (i - 1))) i"
      by simp
  qed
qed

theorem water_temp_in_range_witness:
  "min_temp (cfg two_hour_env) - 1 \<le> target_temp (cfg two_hour_env) \<and>
   target_temp (cfg two_hour_env) \<le> max_temp (cfg two_hour_env) \<and>
   min_temp (cfg two_hour_env) - 1 = 25 \<and> max_temp (cfg two_hour_env) = 29 \<and>
   simulate_year two_hour_env = Inr two_hour_results \<and>
   length two_hour_results = 2 \<and>
   water_temp (two_hour_results ! 0) = 54104 / 2093 \<and>
   25 \<le> water_temp (two_hour_results ! 0) \<and> water_temp (two_hour_results ! 0) \<le> 29 \<and>
   water_temp (two_hour_results ! 1) = 25 \<and>
   25 \<le> water_temp (two_hour_results ! 1) \<and> water_temp (two_hour_results ! 1) \<le> 29"
proof -
  have f: "min_temp (cfg two_hour_env) - 1 = 25" "max_temp (cfg two_hour_env) = 29"
    "target_temp (cfg two_hour_env) = 28"
    by (simp_all add: two_hour_env_def overload_env_def scenario_config_def)
  have l: "length two_hour_results = 2" by (simp add: two_hour_results_def)
  have w: "water_temp (two_hour_results ! 0) = 54104 / 2093"
    "water_temp (two_hour_results ! 1) = 25"
    by (simp_all add: two_hour_results_def)
  from water_temp_in_range [where e = two_hour_env and results = two_hour_results]
    f two_hour_run l
  have "\<forall>i < 2. 25 \<le> water_temp (two_hour_results ! i) \<and> water_temp (two_hour_results ! i) \<le> 29"
    by simp
  then have "25 \<le> water_temp (two_hour_results ! 0) \<and> water_temp (two_hour_results ! 0) \<le> 29"
    "25 \<le> water_temp (two_hour_results ! 1) \<and> water_temp (two_hour_results ! 1) \<le> 29"
    by simp_all
  with f l w two_hour_run show ?thesis by simp
qed
end
